theory Spec2Isabelle
  imports Main
begin

section \<open>The workshop notebooks as Python programs\<close>

text \<open>
  The repository holds two Jupyter notebooks: the Bayesian linear regression of part 1
  (\<^verbatim>\<open>src/unnamed/part_000\<close>) and the variational autoencoder template of part 2
  (\<^verbatim>\<open>Part 2 - Variational Autoencoder - Empty Template.ipynb\<close>). A notebook is a
  list of cells; a code cell is a list of Python statements. The statements are
  transcribed here as abstract syntax, so that what the notebooks contain (classes,
  placeholders, calls, their order) can be computed. Comments and type annotations of
  the source are left out, everything else is kept, cell by cell and in source order.
\<close>

subsection \<open>Abstract syntax\<close>

text \<open>
  Expressions. A keyword argument \<^verbatim>\<open>k=e\<close> of a call is the argument \<open>Kw k e\<close>; a float
  literal keeps its source text; the literal \<^verbatim>\<open>-1\<close> is \<open>IntLit (- 1)\<close>; an f-string
  is the list of its literal parts and interpolated expressions; \<open>ListComp e t i\<close> is
  \<^verbatim>\<open>[e for t in i]\<close>; \<open>DictLit ks vs\<close> has the keys \<open>ks\<close> and the values \<open>vs\<close>.
\<close>

datatype expr =
    Name string
  | NoneLit
  | BoolLit bool
  | IntLit int
  | FloatLit string
  | StrLit string
  | FStr "expr list"
  | Attr expr string
  | Call expr "expr list"
  | Kw string expr
  | Subscript expr expr
  | Slice
  | Tuple "expr list"
  | ListLit "expr list"
  | DictLit "expr list" "expr list"
  | BinOp expr string expr
  | ListComp expr expr expr
  | Yield expr

text \<open>
  Statements. \<open>Shell\<close> is a line starting with \<^verbatim>\<open>!\<close>, run by the notebook in a
  shell. \<open>FunctionDef f ps ds body\<close> has the parameter names \<open>ps\<close> and the default values
  \<open>ds\<close> of the last parameters, as in Python's own syntax tree. \<open>Try\<close> (with the bodies
  of its handlers), \<open>Raise\<close> and \<open>Assert\<close> are part of the language although no cell uses
  them.
\<close>

datatype stmt =
    Shell string
  | Import string string
  | ImportFrom string "string list"
  | Assign expr expr
  | AugAssign expr string expr
  | ExprStmt expr
  | Pass
  | Return expr
  | With expr "stmt list"
  | For expr expr "stmt list"
  | If expr "stmt list" "stmt list"
  | FunctionDef string "string list" "expr list" "stmt list"
  | ClassDef string "expr list" "stmt list"
  | Try "stmt list" "stmt list"
  | Raise expr
  | Assert expr

datatype cell = Markdown | Code "stmt list"

type_synonym notebook = "cell list"

subsection \<open>Part 1: Linear Bayesian Modelling with Pyro\<close>

definition reg_install_cell :: "stmt list" where
  "reg_install_cell = [Shell ''pip3 install -r requirements.txt'']"

definition reg_imports_cell :: "stmt list" where
  "reg_imports_cell =
    [Import ''pandas'' ''pd'',
     Import ''numpy'' ''np'',
     Import ''torch'' ''torch'',
     ImportFrom ''torch'' [''nn''],
     Import ''pyro'' ''pyro'',
     ImportFrom ''pyro.nn'' [''PyroSample'', ''PyroParam'', ''PyroModule''],
     Import ''pyro.distributions'' ''dist'',
     ImportFrom ''pyro'' [''poutine''],
     ImportFrom ''plotly.subplots'' [''make_subplots''],
     Import ''plotly.graph_objects'' ''go'',
     Import ''plotly.express'' ''px'',
     ImportFrom ''typing'' [''List''],
     ImportFrom ''tqdm'' [''tqdm'']]"

definition reg_load_cell :: "stmt list" where
  "reg_load_cell =
    [Assign (Name ''media'')
       (Call (Attr (Name ''pd'') ''read_parquet'') [StrLit ''./assets/media_prepped.parquet'']),
     Assign (Name ''sales'')
       (Call (Attr (Name ''pd'') ''read_parquet'') [StrLit ''./assets/sales_prepped.parquet'']),
     Assign (Name ''X'')
       (Call (Attr (Name ''torch'') ''tensor'')
          [Call (Attr (Name ''media'') ''to_numpy'') [],
           Kw ''dtype'' (Attr (Name ''torch'') ''float32'')]),
     Assign (Name ''y'')
       (Call (Attr (Name ''torch'') ''tensor'')
          [Call (Attr (Name ''sales'') ''to_numpy'') [],
           Kw ''dtype'' (Attr (Name ''torch'') ''float32'')])]"

definition RevenueModel_init_src :: stmt where
  "RevenueModel_init_src =
    FunctionDef ''__init__''
      [''self'', ''media_channels'', ''sales_products'', ''bias_lower_bound'', ''bias_upper_bound'']
      [IntLit 7, IntLit 2,
       BinOp (ListLit [FloatLit ''0.'']) ''*'' (IntLit 2),
       BinOp (ListLit [FloatLit ''10_000.'']) ''*'' (IntLit 2)]
      [ExprStmt (Call (Attr (Call (Name ''super'') []) ''__init__'') []),
       Assign (Attr (Name ''self'') ''linear_layer'')
         (Call (Subscript (Name ''PyroModule'') (Attr (Name ''nn'') ''Linear''))
            [Kw ''in_features'' (Name ''media_channels''),
             Kw ''out_features'' (Name ''sales_products'')]),
       Assign (Attr (Attr (Name ''self'') ''linear_layer'') ''weight'')
         (Call (Name ''PyroSample'')
            [Call (Attr
               (Call (Attr (Name ''dist'') ''FoldedDistribution'')
                  [Call (Attr (Name ''dist'') ''Normal'')
                     [BinOp (Call (Attr (Name ''torch'') ''ones'')
                               [Name ''sales_products'', Name ''media_channels''])
                        ''*'' (FloatLit ''0.5''),
                      Call (Attr (Name ''torch'') ''ones'')
                        [Name ''sales_products'', Name ''media_channels'']]])
               ''to_event'') [IntLit 2]]),
       Assign (Attr (Attr (Name ''self'') ''linear_layer'') ''bias'')
         (Call (Name ''PyroSample'')
            [Call (Attr
               (Call (Attr (Name ''dist'') ''Uniform'')
                  [Call (Attr (Name ''torch'') ''tensor'') [Name ''bias_lower_bound''],
                   Call (Attr (Name ''torch'') ''tensor'') [Name ''bias_upper_bound'']])
               ''to_event'') [IntLit 1]]),
       Assign (Attr (Name ''self'') ''sales_products'') (Name ''sales_products''),
       Assign (Attr (Name ''self'') ''media_channels'') (Name ''media_channels'')]"

definition RevenueModel_forward_src :: stmt where
  "RevenueModel_forward_src =
    FunctionDef ''forward'' [''self'', ''X'', ''y''] [NoneLit]
      [Assign (Name ''y_hat'') (Call (Attr (Name ''self'') ''linear_layer'') [Name ''X'']),
       Assign (Name ''noise'')
         (Call (Attr (Name ''pyro'') ''sample'')
            [StrLit ''noise'',
             Call (Attr
               (Call (Attr
                  (Call (Attr (Name ''dist'') ''HalfNormal'')
                     [Call (Attr (Name ''torch'') ''tensor'')
                        [ListLit [FloatLit ''1000.'', FloatLit ''1000.'']]])
                  ''expand'') [ListLit [IntLit 1, IntLit 2]])
               ''to_event'') [IntLit 1]]),
       With (Call (Attr (Name ''pyro'') ''plate'')
               [StrLit ''sample'', Attr (Name ''self'') ''sales_products''])
         [With (Call (Attr (Name ''pyro'') ''plate'')
                  [StrLit ''data'', Call (Name ''len'') [Name ''X'']])
            [ExprStmt (Call (Attr (Name ''pyro'') ''sample'')
               [StrLit ''obs'',
                Call (Attr (Name ''dist'') ''Normal'') [Name ''y_hat'', Name ''noise''],
                Kw ''obs'' (Name ''y'')])]],
       Return (Name ''y_hat'')]"

definition RevenueModel_class :: stmt where
  "RevenueModel_class =
    ClassDef ''RevenueModel'' [Name ''PyroModule''] [RevenueModel_init_src, RevenueModel_forward_src]"

definition reg_render_cell :: "stmt list" where
  "reg_render_cell =
    [ExprStmt (Call (Attr (Name ''pyro'') ''render_model'')
       [Call (Name ''RevenueModel'') [],
        Kw ''model_args'' (Tuple [Name ''X'', Name ''y'']),
        Kw ''render_params'' (BoolLit True),
        Kw ''render_distributions'' (BoolLit True)])]"

definition reg_trace_cell :: "stmt list" where
  "reg_trace_cell =
    [Assign (Name ''trace'')
       (Call (Attr (Call (Attr (Name ''poutine'') ''trace'') [Call (Name ''RevenueModel'') []])
                ''get_trace'')
          [Name ''X'', Name ''y'']),
     ExprStmt (Call (Attr (Name ''trace'') ''compute_log_prob'') []),
     ExprStmt (Call (Name ''print'') [Call (Attr (Name ''trace'') ''format_shapes'') []])]"

definition RevenueGuide_class :: stmt where
  "RevenueGuide_class =
    ClassDef ''RevenueGuide''
      [Attr (Attr (Attr (Name ''pyro'') ''infer'') ''autoguide'') ''AutoDiagonalNormal'']
      [Pass]"

definition reg_training_loop :: stmt where
  "reg_training_loop =
    For (Name ''epoch'')
      (Call (Name ''tqdm'')
         [Call (Name ''range'') [Name ''EPOCHS''], Kw ''total'' (Name ''EPOCHS'')])
      [Assign (Name ''loss'') (Call (Attr (Name ''svi'') ''step'') [Name ''X'', Name ''y'']),
       ExprStmt (Call (Attr (Name ''losses'') ''append'')
         [BinOp (Name ''loss'') ''/'' (Call (Name ''len'') [Name ''X''])])]"

definition reg_training_cell :: "stmt list" where
  "reg_training_cell =
    [ExprStmt (Call (Attr (Name ''pyro'') ''clear_param_store'') []),
     Assign (Name ''model'') (Call (Name ''RevenueModel'') []),
     Assign (Name ''guide'') (Call (Name ''RevenueGuide'') [Name ''model'']),
     Assign (Name ''optimizer'')
       (Call (Attr (Attr (Name ''pyro'') ''optim'') ''Adam'')
          [DictLit [StrLit ''lr''] [FloatLit ''1e-3'']]),
     Assign (Name ''loss'')
       (Call (Attr (Attr (Name ''pyro'') ''infer'') ''Trace_ELBO'')
          [Kw ''retain_graph'' (BoolLit False)]),
     Assign (Name ''svi'')
       (Call (Attr (Attr (Name ''pyro'') ''infer'') ''SVI'')
          [Kw ''model'' (Name ''model''), Kw ''guide'' (Name ''guide''),
           Kw ''optim'' (Name ''optimizer''), Kw ''loss'' (Name ''loss'')]),
     Assign (Name ''EPOCHS'') (IntLit 1000),
     Assign (Name ''losses'') (ListLit []),
     reg_training_loop,
     ExprStmt (Call (Attr (Name ''px'') ''line'') [Name ''losses''])]"

definition reg_inference_cell :: "stmt list" where
  "reg_inference_cell =
    [Assign (Name ''predictive'')
       (Call (Attr (Attr (Name ''pyro'') ''infer'') ''Predictive'')
          [Kw ''model'' (Name ''model''), Kw ''guide'' (Name ''guide''),
           Kw ''num_samples'' (IntLit 10000)]),
     Assign (Name ''samples'') (Call (Name ''predictive'') [Name ''X'']),
     Assign (Name ''beta_hat'')
       (Call (Attr
          (Call (Attr
             (Call (Attr
                (Call (Attr (Subscript (Name ''samples'') (StrLit ''linear_layer.weight''))
                         ''reshape'')
                   [IntLit (- 1), IntLit 2, IntLit 7])
                ''detach'') [])
             ''cpu'') [])
          ''numpy'') []),
     Assign (Name ''beta_hat_prime'')
       (Call (Attr (Name ''np'') ''moveaxis'') [Name ''beta_hat'', IntLit 0, IntLit (- 1)]),
     Assign (Name ''fig'')
       (Call (Name ''make_subplots'') [Kw ''rows'' (IntLit 2), Kw ''cols'' (IntLit 7)]),
     For (Tuple [Name ''row'', Name ''product''])
       (Call (Name ''enumerate'') [Name ''beta_hat_prime'', Kw ''start'' (IntLit 1)])
       [For (Tuple [Name ''column'', Name ''coefficient_samples''])
          (Call (Name ''enumerate'') [Name ''product'', Kw ''start'' (IntLit 1)])
          [ExprStmt (Call (Attr (Name ''fig'') ''add_trace'')
             [Call (Attr (Name ''go'') ''Histogram'')
                [Kw ''x'' (Name ''coefficient_samples''),
                 Kw ''name''
                   (FStr [Subscript (Attr (Name ''sales'') ''columns'')
                            (BinOp (Name ''row'') ''-'' (IntLit 1)),
                          StrLit '' - '',
                          Subscript (Attr (Name ''media'') ''columns'')
                            (BinOp (Name ''column'') ''-'' (IntLit 1))])],
              Kw ''row'' (Name ''row''), Kw ''col'' (Name ''column'')])]],
     ExprStmt (Call (Attr (Name ''fig'') ''show'') [])]"

definition regression_notebook :: notebook where
  "regression_notebook =
    [Markdown, Markdown, Markdown, Markdown,
     Code reg_install_cell,
     Code reg_imports_cell,
     Code reg_load_cell,
     Markdown,
     Code [RevenueModel_class],
     Code reg_render_cell,
     Code reg_trace_cell,
     Markdown,
     Code [RevenueGuide_class],
     Markdown,
     Code reg_training_cell,
     Markdown,
     Code reg_inference_cell]"

subsection \<open>Part 2: Introduction to Variational Autoencoders with Pyro (empty template)\<close>

definition vae_imports_cell :: "stmt list" where
  "vae_imports_cell =
    [Shell ''pip3 install -r requirements.txt'',
     Import ''pyro'' ''pyro'',
     Import ''torch'' ''torch'',
     ImportFrom ''pyro'' [''distributions as dist''],
     ImportFrom ''pyro.nn'' [''PyroModule'', ''PyroSample'', ''PyroParam''],
     ImportFrom ''pyro.contrib.examples.util'' [''MNIST''],
     Import ''pyro.poutine'' ''poutine'',
     Import ''torchvision.transforms'' ''transforms'',
     ImportFrom ''torch'' [''nn''],
     Import ''numpy'' ''np'',
     ImportFrom ''tqdm'' [''tqdm''],
     ImportFrom ''PIL'' [''Image''],
     ImportFrom ''sklearn.manifold'' [''TSNE''],
     Import ''plotly.express'' ''px'',
     ImportFrom ''torchsummary'' [''summary''],
     ImportFrom ''itertools'' [''chain''],
     Import ''plotly.express'' ''px'']"

definition setup_data_loaders_src :: stmt where
  "setup_data_loaders_src =
    FunctionDef ''setup_data_loaders'' [''batch_size''] [IntLit 128]
      [Assign (Name ''root'') (StrLit ''./data''),
       Assign (Name ''download'') (BoolLit True),
       Assign (Name ''trans'') (Call (Attr (Name ''transforms'') ''ToTensor'') []),
       Assign (Name ''train_set'')
         (Call (Name ''MNIST'')
            [Kw ''root'' (Name ''root''), Kw ''train'' (BoolLit True),
             Kw ''transform'' (Name ''trans''), Kw ''download'' (Name ''download'')]),
       Assign (Name ''test_set'')
         (Call (Name ''MNIST'')
            [Kw ''root'' (Name ''root''), Kw ''train'' (BoolLit False),
             Kw ''transform'' (Name ''trans''), Kw ''download'' (Name ''download'')]),
       Assign (Name ''train_loader'')
         (Call (Attr (Attr (Attr (Name ''torch'') ''utils'') ''data'') ''DataLoader'')
            [Kw ''dataset'' (Name ''train_set''), Kw ''batch_size'' (Name ''batch_size''),
             Kw ''shuffle'' (BoolLit True)]),
       Assign (Name ''test_loader'')
         (Call (Attr (Attr (Attr (Name ''torch'') ''utils'') ''data'') ''DataLoader'')
            [Kw ''dataset'' (Name ''test_set''), Kw ''batch_size'' (Name ''batch_size''),
             Kw ''shuffle'' (BoolLit False)]),
       Return (Tuple [Name ''train_loader'', Name ''test_loader''])]"

definition Encoder_init_src :: stmt where
  "Encoder_init_src =
    FunctionDef ''__init__'' [''self''] []
      [ExprStmt (Call (Attr (Call (Name ''super'') []) ''__init__'') []),
       Assign (Attr (Name ''self'') ''conv1'') NoneLit,
       Assign (Attr (Name ''self'') ''conv2'') NoneLit,
       Assign (Attr (Name ''self'') ''batchnorm'') NoneLit,
       Assign (Attr (Name ''self'') ''fc_intermediate'') NoneLit,
       Assign (Attr (Name ''self'') ''fc_mean'') NoneLit,
       Assign (Attr (Name ''self'') ''fc_std'') NoneLit,
       Assign (Attr (Name ''self'') ''softplus'') NoneLit,
       Assign (Attr (Name ''self'') ''flatten'') NoneLit]"

definition Encoder_forward_src :: stmt where
  "Encoder_forward_src =
    FunctionDef ''forward'' [''self'', ''X''] []
      [Assign (Name ''z_loc'') NoneLit,
       Assign (Name ''z_scale'') NoneLit,
       Return (Tuple [Name ''z_loc'', Name ''z_scale''])]"

definition Encoder_class :: stmt where
  "Encoder_class =
    ClassDef ''Encoder'' [Attr (Name ''nn'') ''Module''] [Encoder_init_src, Encoder_forward_src]"

definition vae_encoder_summary_cell :: "stmt list" where
  "vae_encoder_summary_cell =
    [ExprStmt (Call (Name ''summary'')
       [Call (Name ''Encoder'') [], Tuple [IntLit 1, IntLit 28, IntLit 28]])]"

definition Decoder_init_src :: stmt where
  "Decoder_init_src =
    FunctionDef ''__init__'' [''self''] []
      [ExprStmt (Call (Attr (Call (Name ''super'') []) ''__init__'') []),
       Assign (Attr (Name ''self'') ''fc_mean_std'') NoneLit,
       Assign (Attr (Name ''self'') ''fc_intermediate'') NoneLit,
       Assign (Attr (Name ''self'') ''deconv2'') NoneLit,
       Assign (Attr (Name ''self'') ''deconv1'') NoneLit,
       Assign (Attr (Name ''self'') ''fc_out'') NoneLit,
       Assign (Attr (Name ''self'') ''softplus'') NoneLit,
       Assign (Attr (Name ''self'') ''sigmoid'') NoneLit,
       Assign (Attr (Name ''self'') ''flatten'') NoneLit]"

definition Decoder_forward_src :: stmt where
  "Decoder_forward_src =
    FunctionDef ''forward'' [''self'', ''z''] []
      [Assign (Name ''loc_out'') NoneLit,
       Return (Call (Attr (Name ''loc_out'') ''reshape'')
                 [IntLit (- 1), IntLit 1, IntLit 28, IntLit 28])]"

definition Decoder_class :: stmt where
  "Decoder_class =
    ClassDef ''Decoder'' [Attr (Name ''nn'') ''Module''] [Decoder_init_src, Decoder_forward_src]"

definition vae_decoder_summary_cell :: "stmt list" where
  "vae_decoder_summary_cell =
    [ExprStmt (Call (Name ''summary'') [Call (Name ''Decoder'') [], Tuple [IntLit 32]])]"

definition VAE_init_src :: stmt where
  "VAE_init_src =
    FunctionDef ''__init__'' [''self''] []
      [ExprStmt (Call (Attr (Call (Name ''super'') []) ''__init__'') []),
       Assign (Attr (Name ''self'') ''encoder'') NoneLit,
       Assign (Attr (Name ''self'') ''decoder'') NoneLit,
       Assign (Attr (Name ''self'') ''z_dim'') NoneLit]"

definition VAE_model_src :: stmt where
  "VAE_model_src =
    FunctionDef ''model'' [''self'', ''X''] []
      [Pass,
       With NoneLit
         [Assign (Name ''z_loc'') NoneLit,
          Assign (Name ''z_scale'') NoneLit,
          Assign (Name ''z'') (Call (Attr (Name ''pyro'') ''sample'') [StrLit ''latent'', NoneLit]),
          Assign (Name ''loc_out'') NoneLit,
          ExprStmt (Call (Attr (Name ''pyro'') ''sample'')
            [StrLit ''obs'', NoneLit, Kw ''obs'' (Name ''X'')]),
          Return (Name ''loc_out'')]]"

definition VAE_guide_src :: stmt where
  "VAE_guide_src =
    FunctionDef ''guide'' [''self'', ''X''] []
      [Pass,
       With NoneLit
         [Assign (Tuple [Name ''z_loc'', Name ''z_scale'']) NoneLit,
          ExprStmt (Call (Attr (Name ''pyro'') ''sample'') [StrLit ''latent'', NoneLit])]]"

definition VAE_reconstruct_img_src :: stmt where
  "VAE_reconstruct_img_src =
    FunctionDef ''reconstruct_img'' [''self'', ''X''] []
      [Assign (Tuple [Name ''z_loc'', Name ''z_scale''])
         (Call (Attr (Name ''self'') ''encoder'') [Name ''X'']),
       Assign (Name ''z'')
         (Call (Attr (Call (Attr (Name ''dist'') ''Normal'') [Name ''z_loc'', Name ''z_scale''])
                  ''sample'') []),
       Assign (Name ''loc_img'') (Call (Attr (Name ''self'') ''decoder'') [Name ''z'']),
       Return (Name ''loc_img'')]"

definition VAE_class :: stmt where
  "VAE_class =
    ClassDef ''VAE'' [Attr (Name ''nn'') ''Module'']
      [VAE_init_src, VAE_model_src, VAE_guide_src, VAE_reconstruct_img_src]"

definition vae_svi_cell :: "stmt list" where
  "vae_svi_cell =
    [Assign (Name ''vae'') (Call (Name ''VAE'') []),
     Assign (Name ''optimizer'') NoneLit,
     Assign (Name ''svi'')
       (Call (Attr (Attr (Name ''pyro'') ''infer'') ''SVI'')
          [Kw ''model'' NoneLit, Kw ''guide'' NoneLit,
           Kw ''optim'' (Name ''optimizer''), Kw ''loss'' NoneLit])]"

definition vae_training_loop :: stmt where
  "vae_training_loop =
    For (Name ''epoch'')
      (Call (Name ''tqdm'')
         [Call (Name ''range'') [Name ''EPOCHS''], Kw ''total'' (Name ''EPOCHS'')])
      [Assign (Name ''epoch_loss'') (IntLit 0),
       For (Tuple [Name ''batch'', Name ''_'']) (Name ''train_loader'')
         [AugAssign (Name ''epoch_loss'') ''+''
            (Call (Attr (Name ''svi'') ''step'') [Name ''batch''])],
       Assign (Name ''normalizer_train'')
         (Call (Name ''len'') [Attr (Name ''train_loader'') ''dataset'']),
       Assign (Name ''total_epoch_loss_train'')
         (BinOp (Name ''epoch_loss'') ''/'' (Name ''normalizer_train'')),
       ExprStmt (Call (Attr (Name ''loss'') ''append'') [Name ''total_epoch_loss_train'']),
       If (BinOp (BinOp (Name ''epoch'') ''%'' (IntLit 10)) ''=='' (IntLit 0))
         [ExprStmt (Call (Name ''print'') [Name ''total_epoch_loss_train''])]
         []]"

definition vae_training_cell :: "stmt list" where
  "vae_training_cell =
    [Assign (Name ''EPOCHS'') NoneLit,
     Assign (Tuple [Name ''train_loader'', Name ''test_loader'']) NoneLit,
     ExprStmt (Call (Attr (Name ''pyro'') ''clear_param_store'') []),
     Assign (Name ''loss'') (ListLit []),
     vae_training_loop,
     ExprStmt (Call (Attr (Name ''px'') ''line'') [Name ''loss''])]"

definition evaluate_src :: stmt where
  "evaluate_src =
    FunctionDef ''evaluate'' [''svi'', ''test_loader''] []
      [Assign (Name ''test_loss'') (FloatLit ''0.''),
       For (Tuple [Name ''x'', Name ''_'']) (Name ''test_loader'')
         [AugAssign (Name ''test_loss'') ''+''
            (Call (Attr (Name ''svi'') ''evaluate_loss'') [Name ''x''])],
       Assign (Name ''normalizer_test'')
         (Call (Name ''len'') [Attr (Name ''test_loader'') ''dataset'']),
       Assign (Name ''total_epoch_loss_test'')
         (BinOp (Name ''test_loss'') ''/'' (Name ''normalizer_test'')),
       Return (Name ''total_epoch_loss_test'')]"

definition vae_evaluate_cell :: "stmt list" where
  "vae_evaluate_cell =
    [evaluate_src,
     ExprStmt (Call (Name ''evaluate'')
       [Kw ''svi'' (Name ''svi''), Kw ''test_loader'' (Name ''test_loader'')])]"

definition vae_tsne_cell :: "stmt list" where
  "vae_tsne_cell =
    [Assign (Name ''latent_images'')
       (ListComp
          (Call (Attr
             (Call (Attr
                (Call (Attr
                   (Subscript (Call (Attr (Name ''vae'') ''encoder'') [Name ''img'']) (IntLit 0))
                   ''detach'') [])
                ''cpu'') [])
             ''numpy'') [])
          (Tuple [Name ''img'', Name ''_''])
          (Name ''test_loader'')),
     Assign (Name ''labels'')
       (ListComp
          (Call (Attr
             (Call (Attr
                (Call (Attr (Call (Attr (Name ''label'') ''detach'') []) ''cpu'') [])
                ''numpy'') [])
             ''astype'') [Name ''str''])
          (Tuple [Name ''_'', Name ''label''])
          (Name ''test_loader'')),
     Assign (Name ''labels'')
       (Call (Name ''list'') [Call (Attr (Name ''chain'') ''from_iterable'') [Name ''labels'']]),
     Assign (Name ''latent_images'')
       (Call (Attr (Name ''np'') ''concatenate'') [Name ''latent_images'', Kw ''axis'' (IntLit 0)]),
     Assign (Name ''tsne'')
       (Call (Name ''TSNE'')
          [Kw ''n_components'' (IntLit 2), Kw ''n_jobs'' (IntLit (- 1)),
           Kw ''random_state'' (IntLit 0), Kw ''verbose'' (IntLit 10)]),
     Assign (Name ''latent_embedding'')
       (Call (Attr (Name ''tsne'') ''fit_transform'') [Name ''latent_images'']),
     ExprStmt (Call (Attr (Name ''px'') ''scatter'')
       [Kw ''x'' (Subscript (Name ''latent_embedding'') (Tuple [Slice, IntLit 0])),
        Kw ''y'' (Subscript (Name ''latent_embedding'') (Tuple [Slice, IntLit 1])),
        Kw ''color'' (Name ''labels'')])]"

definition gen_src :: stmt where
  "gen_src =
    FunctionDef ''gen'' [''imgs''] []
      [For (Name ''img'') (Name ''imgs'') [ExprStmt (Yield (Name ''img''))]]"

definition vae_new_images_cell :: "stmt list" where
  "vae_new_images_cell =
    [Assign (Name ''zeros'') NoneLit,
     Assign (Name ''sample_loc'') NoneLit,
     gen_src,
     Assign (Name ''imgs'') (Call (Name ''gen'') [Kw ''imgs'' (Name ''sample_loc'')])]"

definition vae_show_image_cell :: "stmt list" where
  "vae_show_image_cell =
    [ExprStmt (Call (Attr (Call (Attr (Name ''Image'') ''fromarray'') [NoneLit]) ''resize'')
       [Tuple [IntLit 100, IntLit 100]])]"

definition vae_notebook :: notebook where
  "vae_notebook =
    [Markdown, Markdown, Markdown,
     Code vae_imports_cell,
     Code [setup_data_loaders_src],
     Markdown,
     Code [Encoder_class],
     Code vae_encoder_summary_cell,
     Markdown,
     Code [Decoder_class],
     Code vae_decoder_summary_cell,
     Markdown,
     Code [VAE_class],
     Markdown,
     Code vae_svi_cell,
     Code vae_training_cell,
     Markdown, Markdown,
     Code vae_evaluate_cell,
     Markdown,
     Code vae_tsne_cell,
     Markdown,
     Code vae_new_images_cell,
     Code vae_show_image_cell]"

section \<open>Reading the notebooks\<close>

subsection \<open>Cells and statements\<close>

text \<open>Code cells keep their position in the notebook (counted from 0, Markdown cells included).\<close>

fun code_cells_from :: "nat \<Rightarrow> notebook \<Rightarrow> (nat \<times> stmt list) list" where
  "code_cells_from i [] = []"
| "code_cells_from i (Markdown # cs) = code_cells_from (Suc i) cs"
| "code_cells_from i (Code ss # cs) = (i, ss) # code_cells_from (Suc i) cs"

definition code_cells :: "notebook \<Rightarrow> (nat \<times> stmt list) list" where
  "code_cells nb = code_cells_from 0 nb"

definition statements :: "notebook \<Rightarrow> stmt list" where
  "statements nb = concat (map snd (code_cells nb))"

subsection \<open>Calls\<close>

text \<open>
  The dotted name of what a call calls: \<^verbatim>\<open>pd.read_parquet\<close>, \<^verbatim>\<open>super().__init__\<close>;
  and its last component, the function or method name.
\<close>

fun callee_name :: "expr \<Rightarrow> string" where
  "callee_name (Name n) = n"
| "callee_name (Attr e a) = callee_name e @ ''.'' @ a"
| "callee_name (Call f args) = callee_name f @ ''()''"
| "callee_name (Subscript e i) = callee_name e @ ''[]''"
| "callee_name _ = ''?''"


text \<open>
  Every call of an expression, as the called expression with the arguments; an outer
  call comes before the calls inside it.
\<close>

fun expr_calls :: "expr \<Rightarrow> (expr \<times> expr list) list" where
  "expr_calls (Call f args) = (f, args) # expr_calls f @ concat (map expr_calls args)"
| "expr_calls (Attr e a) = expr_calls e"
| "expr_calls (Kw k e) = expr_calls e"
| "expr_calls (Subscript e i) = expr_calls e @ expr_calls i"
| "expr_calls (FStr es) = concat (map expr_calls es)"
| "expr_calls (Tuple es) = concat (map expr_calls es)"
| "expr_calls (ListLit es) = concat (map expr_calls es)"
| "expr_calls (DictLit ks vs) = concat (map expr_calls ks) @ concat (map expr_calls vs)"
| "expr_calls (BinOp a opr b) = expr_calls a @ expr_calls b"
| "expr_calls (ListComp e t i) = expr_calls i @ expr_calls e"
| "expr_calls (Yield e) = expr_calls e"
| "expr_calls _ = []"

text \<open>Every call written in a statement, the bodies of functions and classes included.\<close>

fun stmt_calls :: "stmt \<Rightarrow> (expr \<times> expr list) list" where
  "stmt_calls (Assign t v) = expr_calls t @ expr_calls v"
| "stmt_calls (AugAssign t opr v) = expr_calls t @ expr_calls v"
| "stmt_calls (ExprStmt e) = expr_calls e"
| "stmt_calls (Return e) = expr_calls e"
| "stmt_calls (Raise e) = expr_calls e"
| "stmt_calls (Assert e) = expr_calls e"
| "stmt_calls (With e body) = expr_calls e @ concat (map stmt_calls body)"
| "stmt_calls (For t i body) = expr_calls i @ concat (map stmt_calls body)"
| "stmt_calls (If c a b) =
     expr_calls c @ concat (map stmt_calls a) @ concat (map stmt_calls b)"
| "stmt_calls (FunctionDef f ps ds body) =
     concat (map expr_calls ds) @ concat (map stmt_calls body)"
| "stmt_calls (ClassDef c bases body) =
     concat (map expr_calls bases) @ concat (map stmt_calls body)"
| "stmt_calls (Try body handlers) =
     concat (map stmt_calls body) @ concat (map stmt_calls handlers)"
| "stmt_calls _ = []"


definition calls_of :: "string \<Rightarrow> (expr \<times> expr list) list \<Rightarrow> expr list list" where
  "calls_of n cs = map snd (filter (\<lambda>c. callee_name (fst c) = n) cs)"

subsection \<open>Placeholders\<close>

text \<open>
  A placeholder is a blank the template leaves for the participant: the literal
  \<^verbatim>\<open>None\<close> where a value belongs (bound by an assignment, used as the context manager
  of a \<^verbatim>\<open>with\<close>, or passed as an argument of a call), and a \<^verbatim>\<open>pass\<close> statement in a
  function body. Two uses of the same words are not blanks and are not counted: the
  default value \<^verbatim>\<open>None\<close> of an optional parameter, and the \<^verbatim>\<open>pass\<close> that is the whole
  body of a class statement (such a class is complete: it inherits everything).
\<close>

fun is_blank_arg :: "expr \<Rightarrow> bool" where
  "is_blank_arg NoneLit = True"
| "is_blank_arg (Kw k NoneLit) = True"
| "is_blank_arg _ = False"

fun expr_placeholders :: "expr \<Rightarrow> nat" where
  "expr_placeholders (Call f args) =
     expr_placeholders f + length (filter is_blank_arg args) + sum_list (map expr_placeholders args)"
| "expr_placeholders (Attr e a) = expr_placeholders e"
| "expr_placeholders (Kw k e) = expr_placeholders e"
| "expr_placeholders (Subscript e i) = expr_placeholders e + expr_placeholders i"
| "expr_placeholders (FStr es) = sum_list (map expr_placeholders es)"
| "expr_placeholders (Tuple es) = sum_list (map expr_placeholders es)"
| "expr_placeholders (ListLit es) = sum_list (map expr_placeholders es)"
| "expr_placeholders (DictLit ks vs) =
     sum_list (map expr_placeholders ks) + sum_list (map expr_placeholders vs)"
| "expr_placeholders (BinOp a opr b) = expr_placeholders a + expr_placeholders b"
| "expr_placeholders (ListComp e t i) = expr_placeholders i + expr_placeholders e"
| "expr_placeholders (Yield e) = expr_placeholders e"
| "expr_placeholders _ = 0"

fun value_placeholders :: "expr \<Rightarrow> nat" where
  "value_placeholders NoneLit = 1"
| "value_placeholders e = expr_placeholders e"

fun is_pass :: "stmt \<Rightarrow> bool" where
  "is_pass Pass = True"
| "is_pass _ = False"

fun stmt_placeholders :: "stmt \<Rightarrow> nat" where
  "stmt_placeholders Pass = 1"
| "stmt_placeholders (Assign t v) = value_placeholders v"
| "stmt_placeholders (AugAssign t opr v) = expr_placeholders v"
| "stmt_placeholders (ExprStmt e) = expr_placeholders e"
| "stmt_placeholders (Return e) = expr_placeholders e"
| "stmt_placeholders (Raise e) = expr_placeholders e"
| "stmt_placeholders (Assert e) = expr_placeholders e"
| "stmt_placeholders (With e body) =
     value_placeholders e + sum_list (map stmt_placeholders body)"
| "stmt_placeholders (For t i body) =
     expr_placeholders i + sum_list (map stmt_placeholders body)"
| "stmt_placeholders (If c a b) =
     expr_placeholders c + sum_list (map stmt_placeholders a) + sum_list (map stmt_placeholders b)"
| "stmt_placeholders (FunctionDef f ps ds body) = sum_list (map stmt_placeholders body)"
| "stmt_placeholders (ClassDef c bases body) =
     sum_list (map stmt_placeholders body) - length (filter is_pass body)"
| "stmt_placeholders (Try body handlers) =
     sum_list (map stmt_placeholders body) + sum_list (map stmt_placeholders handlers)"
| "stmt_placeholders _ = 0"

definition notebook_placeholders :: "notebook \<Rightarrow> nat" where
  "notebook_placeholders nb = sum_list (map stmt_placeholders (statements nb))"

text \<open>The methods of a class, and per method the placeholders and the calls written in it.\<close>

fun is_function_def :: "stmt \<Rightarrow> bool" where
  "is_function_def (FunctionDef f ps ds body) = True"
| "is_function_def _ = False"

fun def_name :: "stmt \<Rightarrow> string" where
  "def_name (FunctionDef f ps ds body) = f"
| "def_name (ClassDef c bases body) = c"
| "def_name _ = []"

fun methods :: "stmt \<Rightarrow> stmt list" where
  "methods (ClassDef c bases body) = filter is_function_def body"
| "methods _ = []"

definition method_placeholders :: "stmt \<Rightarrow> (string \<times> nat) list" where
  "method_placeholders cls = map (\<lambda>m. (def_name m, stmt_placeholders m)) (methods cls)"

definition method_calls :: "stmt \<Rightarrow> (string \<times> string list) list" where
  "method_calls cls =
     map (\<lambda>m. (def_name m, map (\<lambda>c. callee_name (fst c)) (stmt_calls m))) (methods cls)"

text \<open>The values that the assignments of a statement bind, nested statements included.\<close>

fun assigned_values :: "stmt \<Rightarrow> expr list" where
  "assigned_values (Assign t v) = [v]"
| "assigned_values (With e body) = concat (map assigned_values body)"
| "assigned_values (For t i body) = concat (map assigned_values body)"
| "assigned_values (If c a b) =
     concat (map assigned_values a) @ concat (map assigned_values b)"
| "assigned_values (FunctionDef f ps ds body) = concat (map assigned_values body)"
| "assigned_values (ClassDef c bases body) = concat (map assigned_values body)"
| "assigned_values (Try body handlers) =
     concat (map assigned_values body) @ concat (map assigned_values handlers)"
| "assigned_values _ = []"


subsection \<open>String literals, classes and error handling\<close>









text \<open>Every class a statement defines, with the dotted names of its bases.\<close>

fun stmt_classes :: "stmt \<Rightarrow> (string \<times> string list) list" where
  "stmt_classes (ClassDef c bases body) =
     (c, map callee_name bases) # concat (map stmt_classes body)"
| "stmt_classes (FunctionDef f ps ds body) = concat (map stmt_classes body)"
| "stmt_classes (With e body) = concat (map stmt_classes body)"
| "stmt_classes (For t i body) = concat (map stmt_classes body)"
| "stmt_classes (If c a b) = concat (map stmt_classes a) @ concat (map stmt_classes b)"
| "stmt_classes (Try body handlers) =
     concat (map stmt_classes body) @ concat (map stmt_classes handlers)"
| "stmt_classes _ = []"

definition notebook_classes :: "notebook \<Rightarrow> (string \<times> string list) list" where
  "notebook_classes nb = concat (map stmt_classes (statements nb))"

text \<open>
  The \<^verbatim>\<open>try\<close>, \<^verbatim>\<open>raise\<close> and \<^verbatim>\<open>assert\<close> statements of a statement, counted at any
  depth.
\<close>

fun error_statements :: "stmt \<Rightarrow> nat" where
  "error_statements (Try body handlers) =
     1 + sum_list (map error_statements body) + sum_list (map error_statements handlers)"
| "error_statements (Raise e) = 1"
| "error_statements (Assert e) = 1"
| "error_statements (With e body) = sum_list (map error_statements body)"
| "error_statements (For t i body) = sum_list (map error_statements body)"
| "error_statements (If c a b) =
     sum_list (map error_statements a) + sum_list (map error_statements b)"
| "error_statements (FunctionDef f ps ds body) = sum_list (map error_statements body)"
| "error_statements (ClassDef c bases body) = sum_list (map error_statements body)"
| "error_statements _ = 0"

definition notebook_error_statements :: "notebook \<Rightarrow> nat" where
  "notebook_error_statements nb = sum_list (map error_statements (statements nb))"

subsection \<open>The steps of the pipeline\<close>










text \<open>A class is an unfilled template when every one of its methods holds a placeholder.\<close>

definition unfilled_template :: "stmt \<Rightarrow> bool" where
  "unfilled_template cls \<longleftrightarrow> list_all (\<lambda>m. 0 < stmt_placeholders m) (methods cls)"


section \<open>What the notebooks' own code computes\<close>

text \<open>
  The functions and loops that the notebooks define themselves are translated into
  functions of HOL. The framework they call (torch, pyro, the data loaders) is not part
  of the repository: each of its operations is a parameter, a function from the state of
  the world (parameter store, random number generators, progress bars) to a value or an
  exception of type \<open>'e\<close>, and the new state. Python's own failures on a placeholder
  (\<^verbatim>\<open>None.reshape\<close>, unpacking \<^verbatim>\<open>None\<close>, \<^verbatim>\<open>range(None)\<close>, division by zero) are
  the first three exceptions.
\<close>

datatype 'e exc = AttributeError | TypeError | ZeroDivisionError | Raised 'e

type_synonym ('w, 'e, 'a) fw_op = "'w \<Rightarrow> ('e + 'a) \<times> 'w"

text \<open>
  A computation runs on the state of the world and on the log of the framework calls
  made so far, so that which calls happen, how often and in which order can be stated.
  An exception ends the computation: the notebooks catch none.
\<close>

type_synonym ('c, 'w, 'e, 'a) py = "'c list \<times> 'w \<Rightarrow> ('e exc + 'a) \<times> 'c list \<times> 'w"

definition py_return :: "'a \<Rightarrow> ('c, 'w, 'e, 'a) py" where
  "py_return x = (\<lambda>s. (Inr x, s))"

definition py_raise :: "'e exc \<Rightarrow> ('c, 'w, 'e, 'a) py" where
  "py_raise e = (\<lambda>s. (Inl e, s))"

definition py_bind ::
  "('c, 'w, 'e, 'a) py \<Rightarrow> ('a \<Rightarrow> ('c, 'w, 'e, 'b) py) \<Rightarrow> ('c, 'w, 'e, 'b) py" where
  "py_bind m f = (\<lambda>s. case m s of (Inl e, s') \<Rightarrow> (Inl e, s') | (Inr x, s') \<Rightarrow> f x s')"

definition fw_call :: "'c \<Rightarrow> ('w, 'e, 'a) fw_op \<Rightarrow> ('c, 'w, 'e, 'a) py" where
  "fw_call c f =
     (\<lambda>(log, w). case f w of
        (Inl e, w') \<Rightarrow> (Inl (Raised e), (log @ [c], w'))
      | (Inr x, w') \<Rightarrow> (Inr x, (log @ [c], w')))"

definition py_print :: "'c \<Rightarrow> ('c, 'w, 'e, unit) py" where
  "py_print c = (\<lambda>(log, w). (Inr (), (log @ [c], w)))"

text \<open>
  Losses are Python floats. Their arithmetic is not modelled: the zero, the sum and the
  quotient by an integer are parameters. Dividing by the integer 0 raises.
\<close>

record 'f float_ops =
  fzero :: 'f
  fadd :: "'f \<Rightarrow> 'f \<Rightarrow> 'f"
  fdiv :: "'f \<Rightarrow> nat \<Rightarrow> 'f"

definition py_truediv :: "'f float_ops \<Rightarrow> 'f \<Rightarrow> nat \<Rightarrow> ('c, 'w, 'e, 'f) py" where
  "py_truediv fo x n = (if n = 0 then py_raise ZeroDivisionError else py_return (fdiv fo x n))"

text \<open>
  A value that the template may have left blank is an option, \<open>None\<close> being Python's
  \<^verbatim>\<open>None\<close>: \<^verbatim>\<open>range(None)\<close> and the unpacking \<^verbatim>\<open>a, b = None\<close> raise TypeError.
\<close>

definition py_range :: "int option \<Rightarrow> ('c, 'w, 'e, int list) py" where
  "py_range n =
     (case n of None \<Rightarrow> py_raise TypeError | Some k \<Rightarrow> py_return (map int [0..<nat k]))"

definition py_unpack2 :: "('a \<times> 'b) option \<Rightarrow> ('c, 'w, 'e, 'a \<times> 'b) py" where
  "py_unpack2 v = (case v of None \<Rightarrow> py_raise TypeError | Some p \<Rightarrow> py_return p)"

subsection \<open>The SVI driver, the data loaders and the training loops\<close>

text \<open>
  The driver \<^verbatim>\<open>svi\<close> offers \<^verbatim>\<open>step\<close> and \<^verbatim>\<open>evaluate_loss\<close>, each taking the
  positional arguments and returning a loss. A data loader yields, each time it is
  iterated, a finite list of pairs of a batch and its labels (which list may depend on
  the state: the training loader shuffles), and knows the length of its dataset.
\<close>

record ('b, 'f, 'w, 'e) svi =
  step :: "'b list \<Rightarrow> ('w, 'e, 'f) fw_op"
  evaluate_loss :: "'b list \<Rightarrow> ('w, 'e, 'f) fw_op"

record ('b, 'l, 'w, 'e) data_loader =
  iterate :: "('w, 'e, ('b \<times> 'l) list) fw_op"
  dataset_len :: nat

datatype ('b, 'f) svi_event =
    CallStep "'b list"
  | CallEvaluateLoss "'b list"
  | Iterate string
  | CallClearParamStore
  | Printed 'f

fun is_call_step :: "('b, 'f) svi_event \<Rightarrow> bool" where
  "is_call_step (CallStep a) = True"
| "is_call_step e = False"

text \<open>
  Part 1, the loop of the training cell:
  \<^verbatim>\<open>for epoch in tqdm(range(EPOCHS), total=EPOCHS):
      loss = svi.step(X, y)
      losses.append(loss / len(X))\<close>
  with \<^verbatim>\<open>EPOCHS = 1_000\<close> and \<^verbatim>\<open>losses = []\<close> set just before. \<^verbatim>\<open>tqdm\<close> hands on
  the elements of the range; \<open>len_X\<close> is the number of rows of the tensor \<^verbatim>\<open>X\<close>.
\<close>

fun reg_epoch_loop ::
  "'f float_ops \<Rightarrow> ('b, 'f, 'w, 'e) svi \<Rightarrow> nat \<Rightarrow> 'b \<Rightarrow> 'b \<Rightarrow> int list \<Rightarrow> 'f list \<Rightarrow>
   (('b, 'f) svi_event, 'w, 'e, 'f list) py" where
  "reg_epoch_loop fo svi len_X X y [] losses = py_return losses"
| "reg_epoch_loop fo svi len_X X y (epoch # epochs) losses =
     py_bind (fw_call (CallStep [X, y]) (step svi [X, y])) (\<lambda>loss.
     py_bind (py_truediv fo loss len_X) (\<lambda>q.
     reg_epoch_loop fo svi len_X X y epochs (losses @ [q])))"

definition run_reg_training_loop ::
  "'f float_ops \<Rightarrow> ('b, 'f, 'w, 'e) svi \<Rightarrow> nat \<Rightarrow> 'b \<Rightarrow> 'b \<Rightarrow>
   (('b, 'f) svi_event, 'w, 'e, 'f list) py" where
  "run_reg_training_loop fo svi len_X X y =
     (let EPOCHS = Some 1000; losses = [] in
      py_bind (py_range EPOCHS) (\<lambda>epochs. reg_epoch_loop fo svi len_X X y epochs losses))"

text \<open>
  Part 2, the training cell. The inner loop
  \<^verbatim>\<open>for batch, _ in train_loader: epoch_loss += svi.step(batch)\<close>
  and the loop over the epochs, which divides the epoch's loss by
  \<^verbatim>\<open>len(train_loader.dataset)\<close>, appends it and prints it every tenth epoch.
\<close>

fun vae_batch_loop ::
  "'f float_ops \<Rightarrow> ('b, 'f, 'w, 'e) svi \<Rightarrow> ('b \<times> 'l) list \<Rightarrow> 'f \<Rightarrow>
   (('b, 'f) svi_event, 'w, 'e, 'f) py" where
  "vae_batch_loop fo svi [] epoch_loss = py_return epoch_loss"
| "vae_batch_loop fo svi ((batch, uu) # rest) epoch_loss =
     py_bind (fw_call (CallStep [batch]) (step svi [batch])) (\<lambda>l.
     vae_batch_loop fo svi rest (fadd fo epoch_loss l))"

fun vae_epoch_loop ::
  "'f float_ops \<Rightarrow> ('b, 'f, 'w, 'e) svi \<Rightarrow> ('b, 'l, 'w, 'e) data_loader \<Rightarrow> int list \<Rightarrow>
   'f list \<Rightarrow> (('b, 'f) svi_event, 'w, 'e, 'f list) py" where
  "vae_epoch_loop fo svi train_loader [] loss = py_return loss"
| "vae_epoch_loop fo svi train_loader (epoch # epochs) loss =
     py_bind (fw_call (Iterate ''train_loader'') (iterate train_loader)) (\<lambda>bs.
     py_bind (vae_batch_loop fo svi bs (fzero fo)) (\<lambda>epoch_loss.
     py_bind (py_truediv fo epoch_loss (dataset_len train_loader)) (\<lambda>total_epoch_loss_train.
     py_bind (if epoch mod 10 = 0 then py_print (Printed total_epoch_loss_train)
              else py_return ()) (\<lambda>uu.
     vae_epoch_loop fo svi train_loader epochs (loss @ [total_epoch_loss_train])))))"

text \<open>
  The cell up to the end of its loop. Its two blanks are parameters: the value bound to
  \<^verbatim>\<open>EPOCHS\<close> and the value unpacked into \<^verbatim>\<open>train_loader, test_loader\<close>. The template
  as it stands fills both with \<^verbatim>\<open>None\<close>.
\<close>

definition run_vae_training_cell ::
  "'f float_ops \<Rightarrow> ('b, 'f, 'w, 'e) svi \<Rightarrow> ('w, 'e, unit) fw_op \<Rightarrow> int option \<Rightarrow>
   (('b, 'l, 'w, 'e) data_loader \<times> ('b, 'l, 'w, 'e) data_loader) option \<Rightarrow>
   (('b, 'f) svi_event, 'w, 'e, 'f list) py" where
  "run_vae_training_cell fo svi clear_param_store EPOCHS loaders =
     py_bind (py_unpack2 loaders) (\<lambda>(train_loader, test_loader).
     py_bind (fw_call CallClearParamStore clear_param_store) (\<lambda>uu.
     (let loss = [] in
      py_bind (py_range EPOCHS) (\<lambda>epochs.
      vae_epoch_loop fo svi train_loader epochs loss))))"

subsection \<open>The test loss\<close>

text \<open>
  \<^verbatim>\<open>def evaluate(svi, test_loader):
      test_loss = 0.
      for x, _ in test_loader:
          test_loss += svi.evaluate_loss(x)
      normalizer_test = len(test_loader.dataset)
      total_epoch_loss_test = test_loss / normalizer_test
      return total_epoch_loss_test\<close>
\<close>

fun evaluate_loop ::
  "'f float_ops \<Rightarrow> ('b, 'f, 'w, 'e) svi \<Rightarrow> ('b \<times> 'l) list \<Rightarrow> 'f \<Rightarrow>
   (('b, 'f) svi_event, 'w, 'e, 'f) py" where
  "evaluate_loop fo svi [] test_loss = py_return test_loss"
| "evaluate_loop fo svi ((x, uu) # rest) test_loss =
     py_bind (fw_call (CallEvaluateLoss [x]) (evaluate_loss svi [x])) (\<lambda>l.
     evaluate_loop fo svi rest (fadd fo test_loss l))"

definition evaluate ::
  "'f float_ops \<Rightarrow> ('b, 'f, 'w, 'e) svi \<Rightarrow> ('b, 'l, 'w, 'e) data_loader \<Rightarrow>
   (('b, 'f) svi_event, 'w, 'e, 'f) py" where
  "evaluate fo svi test_loader =
     (let test_loss = fzero fo in
      py_bind (fw_call (Iterate ''test_loader'') (iterate test_loader)) (\<lambda>bs.
      py_bind (evaluate_loop fo svi bs test_loss) (\<lambda>test_loss.
      (let normalizer_test = dataset_len test_loader in
       py_bind (py_truediv fo test_loss normalizer_test) (\<lambda>total_epoch_loss_test.
       py_return total_epoch_loss_test)))))"

text \<open>
  What \<^verbatim>\<open>svi.evaluate_loss\<close> returns on the batches, called on one after the other, each
  call in the state the one before left: the list of the losses and the last state, or
  nothing when a call raises.
\<close>

fun evaluate_losses ::
  "('b, 'f, 'w, 'e) svi \<Rightarrow> ('b \<times> 'l) list \<Rightarrow> 'w \<Rightarrow> ('f list \<times> 'w) option" where
  "evaluate_losses svi [] w = Some ([], w)"
| "evaluate_losses svi ((x, uu) # rest) w =
     (case evaluate_loss svi [x] w of
        (Inl e, w') \<Rightarrow> None
      | (Inr l, w') \<Rightarrow>
          (case evaluate_losses svi rest w' of
             None \<Rightarrow> None
           | Some (ls, w'') \<Rightarrow> Some (l # ls, w'')))"

text \<open>
  That each of these calls leaves an observation \<open>params\<close> of the state (the parameter
  store, say) as it found it.
\<close>

fun evaluate_keeps ::
  "('w \<Rightarrow> 'p) \<Rightarrow> ('b, 'f, 'w, 'e) svi \<Rightarrow> ('b \<times> 'l) list \<Rightarrow> 'w \<Rightarrow> bool" where
  "evaluate_keeps params svi [] w = True"
| "evaluate_keeps params svi ((x, uu) # rest) w =
     (case evaluate_loss svi [x] w of
        (r, w') \<Rightarrow> params w' = params w \<and> evaluate_keeps params svi rest w')"

subsection \<open>The decoder of the template\<close>








subsection \<open>The forward pass of the revenue model\<close>

text \<open>
  An argument with a default value is either left out or given. The model object holds
  the linear layer, a module of the framework that is called like a function, and the
  two sizes set by the constructor.
\<close>

datatype 'a kwarg = Omitted | Given 'a

definition py_default :: "'a \<Rightarrow> 'a kwarg \<Rightarrow> 'a" where
  "py_default d a = (case a of Omitted \<Rightarrow> d | Given v \<Rightarrow> v)"

record ('t, 'w, 'e) RevenueModel =
  linear_layer :: "'t \<Rightarrow> ('w, 'e, 't) fw_op"
  sales_products :: int
  media_channels :: int

text \<open>
  The operations of torch and pyro that \<^verbatim>\<open>forward\<close> calls, on tensors \<open>'t\<close>,
  distributions \<open>'d\<close> and plates \<open>'p\<close>. \<^verbatim>\<open>pyro.sample\<close> takes the name of the site,
  the distribution and the keyword arguments written at the call.
\<close>

record ('t, 'd, 'p, 'w, 'e) pyro =
  torch_tensor :: "string list \<Rightarrow> ('w, 'e, 't) fw_op"
  dist_HalfNormal :: "'t \<Rightarrow> ('w, 'e, 'd) fw_op"
  dist_expand :: "'d \<Rightarrow> int list \<Rightarrow> ('w, 'e, 'd) fw_op"
  dist_to_event :: "'d \<Rightarrow> int \<Rightarrow> ('w, 'e, 'd) fw_op"
  dist_Normal :: "'t \<Rightarrow> 't \<Rightarrow> ('w, 'e, 'd) fw_op"
  pyro_sample :: "string \<Rightarrow> 'd \<Rightarrow> (string \<times> 't option) list \<Rightarrow> ('w, 'e, 't) fw_op"
  pyro_plate :: "string \<Rightarrow> int \<Rightarrow> ('w, 'e, 'p) fw_op"
  plate_enter :: "'p \<Rightarrow> ('w, 'e, unit) fw_op"
  plate_exit :: "'p \<Rightarrow> ('w, 'e, unit) fw_op"
  tensor_len :: "'t \<Rightarrow> ('w, 'e, nat) fw_op"

datatype ('t, 'd, 'p) pyro_event =
    CallLinearLayer 't
  | CallTensor "string list"
  | CallHalfNormal 't
  | CallExpand 'd "int list"
  | CallToEvent 'd int
  | CallNormal 't 't
  | CallSample string 'd "(string \<times> 't option) list"
  | CallPlate string int
  | EnterPlate 'p
  | ExitPlate 'p
  | CallLen 't

text \<open>
  \<^verbatim>\<open>with cm: body\<close> for a plate: the plate is made and entered, the body runs, and the
  plate is left whether the body returned or raised; a plate does not swallow the
  exception of its body.
\<close>

definition py_with ::
  "('t, 'd, 'p, 'w, 'e) pyro \<Rightarrow> (('t, 'd, 'p) pyro_event, 'w, 'e, 'p) py \<Rightarrow>
   (('t, 'd, 'p) pyro_event, 'w, 'e, 'a) py \<Rightarrow> (('t, 'd, 'p) pyro_event, 'w, 'e, 'a) py" where
  "py_with fw mk body =
     py_bind mk (\<lambda>cm.
     py_bind (fw_call (EnterPlate cm) (plate_enter fw cm)) (\<lambda>uu.
     (\<lambda>s. case body s of
        (Inl e, s1) \<Rightarrow>
          (case fw_call (ExitPlate cm) (plate_exit fw cm) s1 of
             (Inl e', s2) \<Rightarrow> (Inl e', s2)
           | (Inr uu, s2) \<Rightarrow> (Inl e, s2))
      | (Inr x, s1) \<Rightarrow>
          (case fw_call (ExitPlate cm) (plate_exit fw cm) s1 of
             (Inl e', s2) \<Rightarrow> (Inl e', s2)
           | (Inr uu, s2) \<Rightarrow> (Inr x, s2)))))"

text \<open>
  \<^verbatim>\<open>def forward(self, X, y=None):
      y_hat = self.linear_layer(X)
      noise = pyro.sample("noise",
          dist.HalfNormal(torch.tensor([1000., 1000.])).expand([1, 2]).to_event(1))
      with pyro.plate("sample", self.sales_products):
          with pyro.plate("data", len(X)):
              pyro.sample("obs", dist.Normal(y_hat, noise), obs=y)
      return y_hat\<close>
\<close>

definition RevenueModel_forward ::
  "('t, 'd, 'p, 'w, 'e) pyro \<Rightarrow> ('t, 'w, 'e) RevenueModel \<Rightarrow> 't \<Rightarrow> 't option kwarg \<Rightarrow>
   (('t, 'd, 'p) pyro_event, 'w, 'e, 't) py" where
  "RevenueModel_forward fw self X y_arg =
     (let y = py_default None y_arg in
      py_bind (fw_call (CallLinearLayer X) (linear_layer self X)) (\<lambda>y_hat.
      py_bind (fw_call (CallTensor [''1000.'', ''1000.''])
                 (torch_tensor fw [''1000.'', ''1000.''])) (\<lambda>t.
      py_bind (fw_call (CallHalfNormal t) (dist_HalfNormal fw t)) (\<lambda>d0.
      py_bind (fw_call (CallExpand d0 [1, 2]) (dist_expand fw d0 [1, 2])) (\<lambda>d1.
      py_bind (fw_call (CallToEvent d1 1) (dist_to_event fw d1 1)) (\<lambda>d2.
      py_bind (fw_call (CallSample ''noise'' d2 []) (pyro_sample fw ''noise'' d2 [])) (\<lambda>noise.
      py_bind
        (py_with fw
           (fw_call (CallPlate ''sample'' (sales_products self))
              (pyro_plate fw ''sample'' (sales_products self)))
           (py_with fw
              (py_bind (fw_call (CallLen X) (tensor_len fw X)) (\<lambda>n.
               fw_call (CallPlate ''data'' (int n)) (pyro_plate fw ''data'' (int n))))
              (py_bind (fw_call (CallNormal y_hat noise) (dist_Normal fw y_hat noise)) (\<lambda>d.
               py_bind (fw_call (CallSample ''obs'' d [(''obs'', y)])
                          (pyro_sample fw ''obs'' d [(''obs'', y)])) (\<lambda>uu.
               py_return ())))))
        (\<lambda>uu.
      py_return y_hat))))))))"

text \<open>The parameters of a \<^verbatim>\<open>def\<close> and their default values, read from the syntax.\<close>

fun def_params :: "stmt \<Rightarrow> string list" where
  "def_params (FunctionDef f ps ds body) = ps"
| "def_params s = []"

fun def_defaults :: "stmt \<Rightarrow> expr list" where
  "def_defaults (FunctionDef f ps ds body) = ds"
| "def_defaults s = []"

subsection \<open>What is assumed of the framework\<close>

text \<open>
  An operation returns when it raises in no state; it keeps an observation \<open>params\<close> of
  the state (the parameter store, say) when the observation is the same before and after.
\<close>

definition op_returns :: "('w, 'e, 'a) fw_op \<Rightarrow> bool" where
  "op_returns f \<longleftrightarrow> (\<forall>w. \<exists>r w'. f w = (Inr r, w'))"

definition never_raises :: "('a \<Rightarrow> ('w, 'e, 'r) fw_op) \<Rightarrow> bool" where
  "never_raises f \<longleftrightarrow> (\<forall>a. op_returns (f a))"

definition keeps :: "('w \<Rightarrow> 'p) \<Rightarrow> ('w, 'e, 'a) fw_op \<Rightarrow> bool" where
  "keeps params f \<longleftrightarrow> (\<forall>w. params (snd (f w)) = params w)"

definition yields_batches :: "('b, 'l, 'w, 'e) data_loader \<Rightarrow> nat \<Rightarrow> bool" where
  "yields_batches loader b \<longleftrightarrow>
     (\<forall>w. \<exists>bs w'. iterate loader w = (Inr bs, w') \<and> length bs = b)"


subsection \<open>A small framework to run the code on\<close>

text \<open>
  Integers stand for losses, numbers for batches, tensors, distributions and plates. For
  the driver the state of the world is the number of optimisation steps taken:
  \<^verbatim>\<open>step\<close> adds one, nothing else changes it. For the model it is the number of sites
  sampled: \<^verbatim>\<open>pyro.sample\<close> adds one; a plate of no size raises.
\<close>

definition toy_ops :: "int float_ops" where
  "toy_ops = \<lparr>fzero = 0, fadd = (\<lambda>a b. a + b), fdiv = (\<lambda>a n. a div int n)\<rparr>"

definition toy_svi :: "(nat, int, nat, unit) svi" where
  "toy_svi =
     \<lparr>step = (\<lambda>a w. (Inr 8, Suc w)), evaluate_loss = (\<lambda>a w. (Inr (int (sum_list a)), w))\<rparr>"

definition toy_loader :: "(nat, nat, nat, unit) data_loader" where
  "toy_loader = \<lparr>iterate = (\<lambda>w. (Inr [(6, 0), (10, 1)], w)), dataset_len = 4\<rparr>"

definition toy_clear :: "(nat, unit, unit) fw_op" where
  "toy_clear = (\<lambda>w. (Inr (), w))"

definition toy_model :: "(nat, nat, unit) RevenueModel" where
  "toy_model =
     \<lparr>linear_layer = (\<lambda>x w. (Inr (2 * x), w)), sales_products = 2, media_channels = 7\<rparr>"

definition toy_pyro :: "(nat, nat, nat, nat, unit) pyro" where
  "toy_pyro =
     \<lparr>torch_tensor = (\<lambda>l w. (Inr (length l), w)),
      dist_HalfNormal = (\<lambda>t w. (Inr t, w)),
      dist_expand = (\<lambda>d ns w. (Inr d, w)),
      dist_to_event = (\<lambda>d n w. (Inr d, w)),
      dist_Normal = (\<lambda>a b w. (Inr (a + b), w)),
      pyro_sample = (\<lambda>n d kw w. (Inr d, Suc w)),
      pyro_plate = (\<lambda>n k w. if k \<le> 0 then (Inl (), w) else (Inr (nat k), w)),
      plate_enter = (\<lambda>p w. (Inr (), w)),
      plate_exit = (\<lambda>p w. (Inr (), w)),
      tensor_len = (\<lambda>t w. (Inr t, w))\<rparr>"


section \<open>What the two notebooks contain\<close>

text \<open>
  C1 (as amended). Of the four classes only Encoder, Decoder and VAE are templates.
  Every method of Encoder and of Decoder holds placeholders: the two constructors set
  each of their eight attributes to None, Encoder.forward binds None to \<^verbatim>\<open>z_loc\<close> and
  \<^verbatim>\<open>z_scale\<close>, Decoder.forward binds None to \<^verbatim>\<open>loc_out\<close>. In VAE the constructor sets its
  three attributes to None, \<^verbatim>\<open>model\<close> holds seven placeholders and \<^verbatim>\<open>guide\<close> four, while
  \<^verbatim>\<open>reconstruct_img\<close> is supplied complete. RevenueModel is no template: neither its
  constructor nor its forward method holds a placeholder.
\<close>

theorem template_classes_hold_placeholders:
  "unfilled_template Encoder_class \<and>
   unfilled_template Decoder_class \<and>
   method_placeholders Encoder_class = [(''__init__'', 8), (''forward'', 2)] \<and>
   method_placeholders Decoder_class = [(''__init__'', 8), (''forward'', 1)] \<and>
   method_placeholders VAE_class =
     [(''__init__'', 3), (''model'', 7), (''guide'', 4), (''reconstruct_img'', 0)] \<and>
   method_placeholders RevenueModel_class = [(''__init__'', 0), (''forward'', 0)] \<and>
   assigned_values Encoder_class = replicate 10 NoneLit \<and>
   assigned_values Decoder_class = replicate 9 NoneLit \<and>
   assigned_values VAE_init_src = replicate 3 NoneLit"
  by code_simp

text \<open>
  C1 as stated fails at RevenueModel: the class is not an unfilled template, it holds no
  placeholder at all and its two methods are written out, with 25 calls between them.
\<close>

theorem RevenueModel_is_no_template:
  "\<not> unfilled_template RevenueModel_class \<and>
   stmt_placeholders RevenueModel_class = 0 \<and>
   length (stmt_calls RevenueModel_class) = 25"
  by code_simp

text \<open>
  C2. Exactly one notebook is a template. The regression notebook holds no placeholder
  in any cell: its model, its guide, its training loop and its inference cell are
  written out. The autoencoder notebook holds 42, among them 10 in Encoder, 9 in Decoder,
  7 in VAE.model and 4 in VAE.guide, whose bodies set attributes and locals to None and
  start with pass.
\<close>

theorem one_template_one_worked_example:
  "notebook_placeholders regression_notebook = 0 \<and>
   map stmt_placeholders [RevenueModel_class, RevenueGuide_class, reg_training_loop] = [0, 0, 0] \<and>
   sum_list (map stmt_placeholders reg_training_cell) = 0 \<and>
   sum_list (map stmt_placeholders reg_inference_cell) = 0 \<and>
   notebook_placeholders vae_notebook = 42 \<and>
   map stmt_placeholders [Encoder_class, Decoder_class, VAE_model_src, VAE_guide_src] =
     [10, 9, 7, 4]"
  by code_simp


text \<open>
  C6. Neither notebook handles or creates errors of its own: no cell holds a \<^verbatim>\<open>try\<close>,
  \<^verbatim>\<open>raise\<close> or \<^verbatim>\<open>assert\<close> statement at any depth, and the only classes defined are
  RevenueModel, RevenueGuide, Encoder, Decoder and VAE, whose bases are modules and
  guides of the framework, not exception types. So whatever a call of the framework
  raises leaves the running cell as it is.
\<close>

theorem no_error_handling_of_its_own:
  "notebook_error_statements regression_notebook = 0 \<and>
   notebook_error_statements vae_notebook = 0 \<and>
   notebook_classes regression_notebook =
     [(''RevenueModel'', [''PyroModule'']),
      (''RevenueGuide'', [''pyro.infer.autoguide.AutoDiagonalNormal''])] \<and>
   notebook_classes vae_notebook =
     [(''Encoder'', [''nn.Module'']), (''Decoder'', [''nn.Module'']), (''VAE'', [''nn.Module''])]"
  by code_simp


section \<open>What the notebooks' own code does\<close>

subsection \<open>Running the loops when the framework returns\<close>

lemma never_raisesD:
  "never_raises f \<Longrightarrow> \<exists>r w'. f a w = (Inr r, w')"
  by (simp add: never_raises_def op_returns_def)

lemma op_returnsD: "op_returns f \<Longrightarrow> \<exists>r w'. f w = (Inr r, w')"
  by (simp add: op_returns_def)

lemma keepsD: "keeps params f \<Longrightarrow> f w = (r, w') \<Longrightarrow> params w' = params w"
  unfolding keeps_def by (metis snd_conv)

lemma reg_epoch_loop_runs:
  assumes ok: "never_raises (step svi)" and pos: "0 < len_X"
  shows "\<exists>ls w'. length ls = length epochs \<and>
           reg_epoch_loop fo svi len_X X y epochs losses (log, w) =
             (Inr (losses @ ls), (log @ replicate (length epochs) (CallStep [X, y]), w'))"
proof (induction epochs arbitrary: losses log w)
  case Nil
  show ?case by (simp add: py_return_def)
next
  case (Cons epoch epochs)
  obtain l w1 where s: "step svi [X, y] w = (Inr l, w1)"
    using never_raisesD [OF ok] by blast
  obtain ls w2 where n: "length ls = length epochs"
    and r: "reg_epoch_loop fo svi len_X X y epochs (losses @ [fdiv fo l len_X])
              (log @ [CallStep [X, y]], w1) =
            (Inr ((losses @ [fdiv fo l len_X]) @ ls),
             ((log @ [CallStep [X, y]]) @ replicate (length epochs) (CallStep [X, y]), w2))"
    using Cons.IH by blast
  have "reg_epoch_loop fo svi len_X X y (epoch # epochs) losses (log, w) =
          (Inr (losses @ fdiv fo l len_X # ls),
           (log @ replicate (length (epoch # epochs)) (CallStep [X, y]), w2))"
    using pos r s
    by (simp add: fw_call_def py_truediv_def py_bind_def py_return_def)
  moreover have "length (fdiv fo l len_X # ls) = length (epoch # epochs)"
    using n by simp
  ultimately show ?case by blast
qed

lemma vae_batch_loop_runs:
  assumes ok: "never_raises (step svi)"
  shows "\<exists>l w'. vae_batch_loop fo svi bs acc (log, w) =
           (Inr l, (log @ map (\<lambda>b. CallStep [fst b]) bs, w'))"
proof (induction bs arbitrary: acc log w)
  case Nil
  show ?case by (simp add: py_return_def)
next
  case (Cons b bs)
  obtain batch lbl where b: "b = (batch, lbl)" by (cases b)
  obtain l w1 where s: "step svi [batch] w = (Inr l, w1)"
    using never_raisesD [OF ok] by blast
  obtain l2 w2 where
    r: "vae_batch_loop fo svi bs (fadd fo acc l) (log @ [CallStep [batch]], w1) =
          (Inr l2, ((log @ [CallStep [batch]]) @ map (\<lambda>b. CallStep [fst b]) bs, w2))"
    using Cons.IH by blast
  have "vae_batch_loop fo svi (b # bs) acc (log, w) =
          (Inr l2, (log @ map (\<lambda>b. CallStep [fst b]) (b # bs), w2))"
    using r s by (simp add: b fw_call_def py_bind_def)
  then show ?case by blast
qed

lemma filter_steps_of_batches:
  "filter is_call_step (map (\<lambda>b. CallStep [fst b]) bs) = map (\<lambda>b. CallStep [fst b]) bs"
  by (induction bs) simp_all

lemma vae_epoch_loop_runs:
  assumes ok: "never_raises (step svi)" and it: "yields_batches train_loader b"
    and pos: "0 < dataset_len train_loader"
  shows "\<exists>ls evs w'. length ls = length epochs \<and>
           length (filter is_call_step evs) = length epochs * b \<and>
           vae_epoch_loop fo svi train_loader epochs loss (log, w) =
             (Inr (loss @ ls), (log @ evs, w'))"
proof (induction epochs arbitrary: loss log w)
  case Nil
  have "vae_epoch_loop fo svi train_loader [] loss (log, w) = (Inr (loss @ []), (log @ [], w))"
    by (simp add: py_return_def)
  then show ?case by fastforce
next
  case (Cons epoch epochs)
  obtain bs w1 where i: "iterate train_loader w = (Inr bs, w1)" and nb: "length bs = b"
    using it unfolding yields_batches_def by blast
  let ?log1 = "log @ [Iterate ''train_loader'']"
  obtain l w2 where
    bl: "vae_batch_loop fo svi bs (fzero fo) (?log1, w1) =
          (Inr l, (?log1 @ map (\<lambda>b. CallStep [fst b]) bs, w2))"
    using vae_batch_loop_runs [OF ok] by blast
  let ?t = "fdiv fo l (dataset_len train_loader)"
  let ?pr = "if epoch mod 10 = 0 then [Printed ?t] else []"
  let ?log2 = "(?log1 @ map (\<lambda>b. CallStep [fst b]) bs) @ ?pr"
  obtain ls evs w3 where n: "length ls = length epochs"
    and c: "length (filter is_call_step evs) = length epochs * b"
    and r: "vae_epoch_loop fo svi train_loader epochs (loss @ [?t]) (?log2, w2) =
             (Inr ((loss @ [?t]) @ ls), (?log2 @ evs, w3))"
    using Cons.IH by blast
  let ?evs = "Iterate ''train_loader'' # map (\<lambda>b. CallStep [fst b]) bs @ ?pr @ evs"
  have "vae_epoch_loop fo svi train_loader (epoch # epochs) loss (log, w) =
          (Inr (loss @ ?t # ls), (log @ ?evs, w3))"
    using pos r i bl
    by (cases "epoch mod 10 = 0")
      (simp_all add: fw_call_def py_truediv_def py_bind_def py_return_def py_print_def)
  moreover have "length (?t # ls) = length (epoch # epochs)"
    using n by simp
  moreover have "length (filter is_call_step ?evs) = length (epoch # epochs) * b"
    using c nb by (simp add: filter_steps_of_batches)
  ultimately show ?case by blast
qed

lemma run_reg_training_loop_runs:
  assumes ok: "never_raises (step svi)" and pos: "0 < len_X"
  shows "\<exists>ls w'. length ls = 1000 \<and>
           run_reg_training_loop fo svi len_X X y (log, w) =
             (Inr ls, (log @ replicate 1000 (CallStep [X, y]), w'))"
proof -
  define epochs where "epochs = map int [0..<nat 1000]"
  have len: "length epochs = 1000" by (simp add: epochs_def)
  obtain ls w' where n: "length ls = length epochs"
    and r: "reg_epoch_loop fo svi len_X X y epochs [] (log, w) =
              (Inr ([] @ ls), (log @ replicate (length epochs) (CallStep [X, y]), w'))"
    using reg_epoch_loop_runs [OF ok pos] by blast
  have "run_reg_training_loop fo svi len_X X y (log, w) =
          reg_epoch_loop fo svi len_X X y epochs [] (log, w)"
    unfolding run_reg_training_loop_def py_range_def Let_def epochs_def
    by (simp only: option.case py_bind_def py_return_def prod.case sum.case)
  then show ?thesis using n r len by auto
qed

lemma run_vae_training_cell_runs:
  assumes ok: "never_raises (step svi)" and it: "yields_batches train_loader b"
    and pos: "0 < dataset_len train_loader" and cl: "op_returns clear_param_store"
  shows "\<exists>ls evs w'. length ls = nat n \<and>
           length (filter is_call_step evs) = nat n * b \<and>
           run_vae_training_cell fo svi clear_param_store (Some n)
             (Some (train_loader, test_loader)) (log, w) = (Inr ls, (log @ evs, w'))"
proof -
  define epochs where "epochs = map int [0..<nat n]"
  have len: "length epochs = nat n" by (simp add: epochs_def)
  obtain u w1 where c: "clear_param_store w = (Inr u, w1)"
    using op_returnsD [OF cl] by blast
  obtain ls evs w' where m: "length ls = length epochs"
    and k: "length (filter is_call_step evs) = length epochs * b"
    and r: "vae_epoch_loop fo svi train_loader epochs [] (log @ [CallClearParamStore], w1) =
              (Inr ([] @ ls), ((log @ [CallClearParamStore]) @ evs, w'))"
    using vae_epoch_loop_runs [OF ok it pos] by blast
  have "run_vae_training_cell fo svi clear_param_store (Some n)
          (Some (train_loader, test_loader)) (log, w) =
        (Inr ls, (log @ CallClearParamStore # evs, w'))"
    using c r
    by (simp add: run_vae_training_cell_def py_unpack2_def py_range_def py_bind_def
        py_return_def fw_call_def epochs_def)
  moreover have "length (filter is_call_step (CallClearParamStore # evs)) = nat n * b"
    using k len by simp
  ultimately show ?thesis using m len by metis
qed

lemma run_vae_training_cell_template:
  "run_vae_training_cell fo svi clear_param_store None None (log, w) = (Inl TypeError, (log, w))"
  by (simp add: run_vae_training_cell_def py_unpack2_def py_bind_def py_raise_def)

subsection \<open>The training loops\<close>

text \<open>
  C4 (as amended). As long as no call of the framework raises and the datasets are not
  empty: the training loop of the regression notebook iterates exactly EPOCHS = 1000
  times, calls \<^verbatim>\<open>svi.step(X, y)\<close> once in each iteration and nothing else of the driver,
  and ends with the 1000 losses;
  the training cell of the autoencoder notebook, once its blanks are filled with a number
  of epochs \<open>n\<close> and a loader that yields \<open>b\<close> batches each time, calls \<^verbatim>\<open>svi.step\<close> once
  per batch per epoch, \<open>n * b\<close> times in all, and ends with the \<open>n\<close> epoch losses. As the
  template stands, with EPOCHS and the loaders bound to None, that cell raises TypeError
  before its loop starts and calls \<^verbatim>\<open>svi.step\<close> not once.
\<close>

theorem training_loops_run_EPOCHS_times:
  assumes "never_raises (step svi)" and "0 < len_X"
    and "yields_batches train_loader b" and "0 < dataset_len train_loader"
    and "op_returns clear_param_store"
  shows "(\<exists>ls w'. length ls = 1000 \<and>
            run_reg_training_loop fo svi len_X X y (log, w) =
              (Inr ls, (log @ replicate 1000 (CallStep [X, y]), w'))) \<and>
         (\<exists>ls evs w'. length ls = nat n \<and>
            length (filter is_call_step evs) = nat n * b \<and>
            run_vae_training_cell fo svi clear_param_store (Some n)
              (Some (train_loader, test_loader)) (log, w) = (Inr ls, (log @ evs, w'))) \<and>
         run_vae_training_cell fo svi clear_param_store None
           (None :: (('b, 'l, 'w, 'e) data_loader \<times> ('b, 'l, 'w, 'e) data_loader) option)
           (log, w) = (Inl TypeError, (log, w))"
proof (intro conjI)
  show "\<exists>ls w'. length ls = 1000 \<and>
          run_reg_training_loop fo svi len_X X y (log, w) =
            (Inr ls, (log @ replicate 1000 (CallStep [X, y]), w'))"
    by (rule run_reg_training_loop_runs [OF assms(1) assms(2)])
  show "\<exists>ls evs w'. length ls = nat n \<and>
          length (filter is_call_step evs) = nat n * b \<and>
          run_vae_training_cell fo svi clear_param_store (Some n)
            (Some (train_loader, test_loader)) (log, w) = (Inr ls, (log @ evs, w'))"
    by (rule run_vae_training_cell_runs [OF assms(1) assms(3) assms(4) assms(5)])
  show "run_vae_training_cell fo svi clear_param_store None
          (None :: (('b, 'l, 'w, 'e) data_loader \<times> ('b, 'l, 'w, 'e) data_loader) option)
          (log, w) = (Inl TypeError, (log, w))"
    by (rule run_vae_training_cell_template)
qed

text \<open>The theorem of C4 on the small framework: three epochs over two batches.\<close>

theorem training_loops_witness:
  "never_raises (step toy_svi) \<and> (0::nat) < 3 \<and> yields_batches toy_loader 2 \<and>
   0 < dataset_len toy_loader \<and> op_returns toy_clear \<and>
   (\<exists>ls w'. length ls = 1000 \<and>
      run_reg_training_loop toy_ops toy_svi 3 0 1 ([], 0) =
        (Inr ls, ([] @ replicate 1000 (CallStep [0, 1]), w'))) \<and>
   (\<exists>ls evs w'. length ls = nat 3 \<and>
      length (filter is_call_step evs) = nat 3 * 2 \<and>
      run_vae_training_cell toy_ops toy_svi toy_clear (Some 3)
        (Some (toy_loader, toy_loader)) ([], 0) = (Inr ls, ([] @ evs, w'))) \<and>
   run_vae_training_cell toy_ops toy_svi toy_clear None
     (None :: ((nat, nat, nat, unit) data_loader \<times> (nat, nat, nat, unit) data_loader) option)
     ([], 0) = (Inl TypeError, ([], 0))"
proof -
  have h1: "never_raises (step toy_svi)"
    by (simp add: never_raises_def op_returns_def toy_svi_def)
  have h2: "(0::nat) < 3" by simp
  have h3: "yields_batches toy_loader 2"
    by (simp add: yields_batches_def toy_loader_def)
  have h4: "0 < dataset_len toy_loader" by (simp add: toy_loader_def)
  have h5: "op_returns toy_clear" by (simp add: op_returns_def toy_clear_def)
  show ?thesis
    using h1 h2 h3 h4 h5
      training_loops_run_EPOCHS_times [OF h1 h2 h3 h4 h5, where fo = toy_ops and X = 0
        and y = 1 and log = "[]" and w = 0 and n = 3 and test_loader = toy_loader]
    by blast
qed

text \<open>
  C4 as stated fails at the autoencoder notebook as it stands: its training cell makes
  no iteration and no call of the framework, it raises TypeError.
\<close>

theorem vae_training_cell_as_written_raises:
  "run_vae_training_cell toy_ops toy_svi toy_clear None
     (None :: ((nat, nat, nat, unit) data_loader \<times> (nat, nat, nat, unit) data_loader) option)
     ([], 0) = (Inl TypeError, ([], 0))"
  by (simp add: run_vae_training_cell_def py_unpack2_def py_bind_def py_raise_def)

subsection \<open>The decoder\<close>






subsection \<open>The test loss\<close>

lemma evaluate_loop_run:
  "evaluate_losses svi bs w = Some (ls, w2) \<Longrightarrow>
   evaluate_loop fo svi bs acc (log, w) =
     (Inr (foldl (fadd fo) acc ls), (log @ map (\<lambda>b. CallEvaluateLoss [fst b]) bs, w2)) \<and>
   length ls = length bs"
proof (induction bs arbitrary: acc log w ls)
  case Nil
  then show ?case by (simp add: py_return_def)
next
  case (Cons b bs)
  obtain x lbl where b: "b = (x, lbl)" by (cases b)
  from Cons.prems obtain l w1 ls' where s: "evaluate_loss svi [x] w = (Inr l, w1)"
    and r: "evaluate_losses svi bs w1 = Some (ls', w2)" and ls: "ls = l # ls'"
    by (auto simp: b split: prod.splits sum.splits option.splits)
  from Cons.IH [OF r, of "fadd fo acc l" "log @ [CallEvaluateLoss [x]]"]
  show ?case using s by (simp add: b ls fw_call_def py_bind_def)
qed

lemma evaluate_losses_keep:
  "evaluate_keeps params svi bs w \<Longrightarrow> evaluate_losses svi bs w = Some (ls, w2) \<Longrightarrow>
   params w2 = params w"
proof (induction bs arbitrary: w ls)
  case Nil
  then show ?case by simp
next
  case (Cons b bs)
  obtain x lbl where b: "b = (x, lbl)" by (cases b)
  from Cons.prems(2) obtain l w1 ls' where s: "evaluate_loss svi [x] w = (Inr l, w1)"
    and r: "evaluate_losses svi bs w1 = Some (ls', w2)"
    by (auto simp: b split: prod.splits sum.splits option.splits)
  have k: "params w1 = params w" and k': "evaluate_keeps params svi bs w1"
    using Cons.prems(1) s by (simp_all add: b)
  show ?case using Cons.IH [OF k' r] k by simp
qed

lemma evaluate_loop_ignores_step:
  "evaluate_loop fo (svi\<lparr>step := f\<rparr>) bs acc = evaluate_loop fo svi bs acc"
  by (induction bs arbitrary: acc) auto

lemma no_step_among_evaluate_losses:
  "filter is_call_step (map (\<lambda>b. CallEvaluateLoss [fst b]) bs) = []"
  by (induction bs) simp_all

text \<open>
  C9. Let the test loader yield the batches \<open>bs\<close> and let \<^verbatim>\<open>svi.evaluate_loss\<close>, called
  on these batches one after the other, return the losses \<open>ls\<close>. Then \<^verbatim>\<open>evaluate\<close> makes
  exactly these calls of the framework, in this order: it iterates over the loader and
  calls \<^verbatim>\<open>svi.evaluate_loss\<close> once on the data of every batch; it never calls
  \<^verbatim>\<open>svi.step\<close>, and what \<^verbatim>\<open>svi.step\<close> would do makes no difference to it. It returns
  the sum of the losses \<open>ls\<close>, added up from zero in the order of the batches, divided
  by the size of the test dataset (dividing by the size 0 raises ZeroDivisionError). The
  state it leaves is the state the last of these calls left: if iterating and each of
  these calls of \<^verbatim>\<open>evaluate_loss\<close> leave the parameters as they found them, so does
  \<^verbatim>\<open>evaluate\<close>.
\<close>

theorem evaluate_sums_evaluate_loss_and_keeps_params:
  assumes it: "iterate test_loader w = (Inr bs, w1)"
    and run: "evaluate_losses svi bs w1 = Some (ls, w2)"
  shows "evaluate fo svi test_loader (log, w) =
           ((if dataset_len test_loader = 0 then Inl ZeroDivisionError
             else Inr (fdiv fo (foldl (fadd fo) (fzero fo) ls) (dataset_len test_loader))),
            (log @ Iterate ''test_loader'' # map (\<lambda>b. CallEvaluateLoss [fst b]) bs, w2)) \<and>
         length ls = length bs \<and>
         filter is_call_step
           (Iterate ''test_loader'' # map (\<lambda>b. CallEvaluateLoss [fst b]) bs) = [] \<and>
         evaluate fo (svi\<lparr>step := other\<rparr>) test_loader = evaluate fo svi test_loader \<and>
         (params w1 = params w \<and> evaluate_keeps params svi bs w1 \<longrightarrow> params w2 = params w)"
proof -
  have r: "evaluate_loop fo svi bs (fzero fo) (log @ [Iterate ''test_loader''], w1) =
            (Inr (foldl (fadd fo) (fzero fo) ls),
             ((log @ [Iterate ''test_loader'']) @ map (\<lambda>b. CallEvaluateLoss [fst b]) bs, w2))"
    and n: "length ls = length bs"
    using evaluate_loop_run [OF run] by blast+
  have e: "evaluate fo svi test_loader (log, w) =
           ((if dataset_len test_loader = 0 then Inl ZeroDivisionError
             else Inr (fdiv fo (foldl (fadd fo) (fzero fo) ls) (dataset_len test_loader))),
            (log @ Iterate ''test_loader'' # map (\<lambda>b. CallEvaluateLoss [fst b]) bs, w2))"
    using r it
    by (simp add: evaluate_def fw_call_def py_truediv_def py_bind_def py_return_def
        py_raise_def)
  have f: "filter is_call_step
             (Iterate ''test_loader'' # map (\<lambda>b. CallEvaluateLoss [fst b]) bs) = []"
    by (simp add: no_step_among_evaluate_losses)
  have g: "evaluate fo (svi\<lparr>step := other\<rparr>) test_loader = evaluate fo svi test_loader"
    by (simp add: evaluate_def evaluate_loop_ignores_step)
  have k: "params w1 = params w \<and> evaluate_keeps params svi bs w1 \<longrightarrow> params w2 = params w"
    using evaluate_losses_keep [OF _ run, of params] by simp
  show ?thesis using e n f g k by blast
qed

text \<open>
  The theorem of C9 on the small framework: two batches with the losses 6 and 10, a test
  dataset of size 4, and a state that only \<^verbatim>\<open>step\<close> changes.
\<close>

theorem evaluate_witness:
  "iterate toy_loader 7 = (Inr [(6, 0), (10, 1)], 7) \<and>
   evaluate_losses toy_svi [(6, 0), (10, 1 :: nat)] 7 = Some ([6, 10], 7) \<and>
   evaluate_keeps (\<lambda>w. w) toy_svi [(6, 0), (10, 1 :: nat)] 7 \<and>
   dataset_len toy_loader = 4 \<and>
   evaluate toy_ops toy_svi toy_loader ([], 7) =
     (Inr 4, ([Iterate ''test_loader'', CallEvaluateLoss [6], CallEvaluateLoss [10]], 7)) \<and>
   evaluate toy_ops (toy_svi\<lparr>step := (\<lambda>a w. (Inr 0, w + 100))\<rparr>) toy_loader =
     evaluate toy_ops toy_svi toy_loader"
proof -
  have h1: "iterate toy_loader 7 = (Inr [(6, 0), (10, 1)], 7)"
    by (simp add: toy_loader_def)
  have h2: "evaluate_losses toy_svi [(6, 0), (10, 1 :: nat)] 7 = Some ([6, 10], 7)"
    by (simp add: toy_svi_def)
  have h3: "evaluate_keeps (\<lambda>w. w) toy_svi [(6, 0), (10, 1 :: nat)] 7"
    by (simp add: toy_svi_def)
  have h4: "dataset_len toy_loader = 4" by (simp add: toy_loader_def)
  have t: "evaluate toy_ops toy_svi toy_loader ([], 7) =
             (Inr 4, ([Iterate ''test_loader'', CallEvaluateLoss [6], CallEvaluateLoss [10]], 7)) \<and>
           evaluate toy_ops (toy_svi\<lparr>step := (\<lambda>a w. (Inr 0, w + 100))\<rparr>) toy_loader =
             evaluate toy_ops toy_svi toy_loader"
    using evaluate_sums_evaluate_loss_and_keeps_params [OF h1 h2, where fo = toy_ops
        and log = "[]" and other = "\<lambda>a w. (Inr 0, w + 100)" and params = "\<lambda>w. w"]
    by (simp add: toy_ops_def h4)
  from h1 h2 h3 h4 t show ?thesis by blast
qed

subsection \<open>The forward pass of the revenue model\<close>

lemma py_bind_InrD:
  "py_bind m f s = (Inr r, s') \<Longrightarrow> \<exists>x s1. m s = (Inr x, s1) \<and> f x s1 = (Inr r, s')"
  by (auto simp: py_bind_def split: prod.splits sum.splits)

lemma RevenueModel_forward_value:
  assumes "RevenueModel_forward fw self X y_arg (log, w) = (Inr r, s')"
  shows "\<exists>w1. linear_layer self X w = (Inr r, w1)"
  apply (insert assms)
  apply (unfold RevenueModel_forward_def Let_def)
  apply (drule py_bind_InrD, elim exE conjE)+
  apply (auto simp: py_return_def fw_call_def split: prod.splits sum.splits)
  done

lemma predictive_calls:
  "def_params RevenueModel_forward_src = [''self'', ''X'', ''y''] \<and>
   def_defaults RevenueModel_forward_src = [NoneLit] \<and>
   calls_of ''pyro.infer.Predictive'' (concat (map stmt_calls reg_inference_cell)) =
     [[Kw ''model'' (Name ''model''), Kw ''guide'' (Name ''guide''),
       Kw ''num_samples'' (IntLit 10000)]] \<and>
   calls_of ''predictive'' (concat (map stmt_calls reg_inference_cell)) = [[Name ''X'']]"
  by code_simp

text \<open>
  C10. \<^verbatim>\<open>forward\<close> has the parameters \<^verbatim>\<open>self\<close>, \<^verbatim>\<open>X\<close> and \<^verbatim>\<open>y\<close>, the last with
  the default None, and leaving \<^verbatim>\<open>y\<close> out is the same as passing None. For every
  \<open>X\<close> on which the linear layer returns \<open>y_hat\<close>: whenever \<^verbatim>\<open>forward\<close> returns, with
  any \<^verbatim>\<open>y\<close> or with none, it returns \<open>y_hat\<close>; and when each call of the framework on its
  way returns, it does return, having made exactly these calls in this order: the linear
  layer on \<^verbatim>\<open>X\<close>, the prior and the sample of the site "noise", the plate "sample" of
  size \<^verbatim>\<open>sales_products\<close> and inside it the plate "data" of size \<^verbatim>\<open>len(X)\<close>, inside
  both the sample of the site "obs" from Normal(y_hat, noise) with the keyword argument
  \<^verbatim>\<open>obs\<close> bound to \<^verbatim>\<open>y\<close>, which is None when \<^verbatim>\<open>y\<close> is left out, and the two plates
  left in reverse order. The inference cell builds
  \<^verbatim>\<open>Predictive(model=model, guide=guide, num_samples=10000)\<close> and calls it on \<^verbatim>\<open>X\<close>
  alone, without targets.
\<close>

theorem forward_returns_linear_layer_output:
  assumes a1: "linear_layer self X w = (Inr y_hat, w1)"
    and a2: "torch_tensor fw [''1000.'', ''1000.''] w1 = (Inr t, w2)"
    and a3: "dist_HalfNormal fw t w2 = (Inr d0, w3)"
    and a4: "dist_expand fw d0 [1, 2] w3 = (Inr d1, w4)"
    and a5: "dist_to_event fw d1 1 w4 = (Inr d2, w5)"
    and a6: "pyro_sample fw ''noise'' d2 [] w5 = (Inr noise, w6)"
    and a7: "pyro_plate fw ''sample'' (sales_products self) w6 = (Inr p1, w7)"
    and a8: "plate_enter fw p1 w7 = (Inr (), w8)"
    and a9: "tensor_len fw X w8 = (Inr n, w9)"
    and a10: "pyro_plate fw ''data'' (int n) w9 = (Inr p2, w10)"
    and a11: "plate_enter fw p2 w10 = (Inr (), w11)"
    and a12: "dist_Normal fw y_hat noise w11 = (Inr d, w12)"
    and a13: "pyro_sample fw ''obs'' d [(''obs'', py_default None y_arg)] w12 = (Inr obs, w13)"
    and a14: "plate_exit fw p2 w13 = (Inr (), w14)"
    and a15: "plate_exit fw p1 w14 = (Inr (), w15)"
  shows "RevenueModel_forward fw self X y_arg (log, w) =
           (Inr y_hat,
            (log @
             [CallLinearLayer X, CallTensor [''1000.'', ''1000.''], CallHalfNormal t,
              CallExpand d0 [1, 2], CallToEvent d1 1, CallSample ''noise'' d2 [],
              CallPlate ''sample'' (sales_products self), EnterPlate p1,
              CallLen X, CallPlate ''data'' (int n), EnterPlate p2,
              CallNormal y_hat noise,
              CallSample ''obs'' d [(''obs'', py_default None y_arg)],
              ExitPlate p2, ExitPlate p1], w15)) \<and>
         (\<forall>y' log' r s'.
            RevenueModel_forward fw self X y' (log', w) = (Inr r, s') \<longrightarrow> r = y_hat) \<and>
         py_default None (Omitted :: 't option kwarg) = None \<and>
         RevenueModel_forward fw self X Omitted = RevenueModel_forward fw self X (Given None) \<and>
         def_params RevenueModel_forward_src = [''self'', ''X'', ''y''] \<and>
         def_defaults RevenueModel_forward_src = [NoneLit] \<and>
         calls_of ''pyro.infer.Predictive'' (concat (map stmt_calls reg_inference_cell)) =
           [[Kw ''model'' (Name ''model''), Kw ''guide'' (Name ''guide''),
             Kw ''num_samples'' (IntLit 10000)]] \<and>
         calls_of ''predictive'' (concat (map stmt_calls reg_inference_cell)) = [[Name ''X'']]"
proof -
  have run: "RevenueModel_forward fw self X y_arg (log, w) =
           (Inr y_hat,
            (log @
             [CallLinearLayer X, CallTensor [''1000.'', ''1000.''], CallHalfNormal t,
              CallExpand d0 [1, 2], CallToEvent d1 1, CallSample ''noise'' d2 [],
              CallPlate ''sample'' (sales_products self), EnterPlate p1,
              CallLen X, CallPlate ''data'' (int n), EnterPlate p2,
              CallNormal y_hat noise,
              CallSample ''obs'' d [(''obs'', py_default None y_arg)],
              ExitPlate p2, ExitPlate p1], w15))"
    using a1 a2 a3 a4 a5 a6 a7 a8 a9 a10 a11 a12 a13 a14 a15
    by (simp add: RevenueModel_forward_def py_with_def fw_call_def py_bind_def py_return_def
        Let_def)
  have val: "\<forall>y' log' r s'.
            RevenueModel_forward fw self X y' (log', w) = (Inr r, s') \<longrightarrow> r = y_hat"
    using RevenueModel_forward_value a1 by fastforce
  have dflt: "RevenueModel_forward fw self X Omitted = RevenueModel_forward fw self X (Given None)"
    by (simp add: RevenueModel_forward_def py_default_def)
  show ?thesis
    using run val dflt predictive_calls by (simp add: py_default_def)
qed

text \<open>
  The theorem of C10 on the small framework, whose plates raise at size 0, with \<open>X\<close> of
  five rows and \<^verbatim>\<open>y\<close> left out: forward returns the output of the linear layer, 10, and
  the site "obs" is sampled with \<^verbatim>\<open>obs\<close> bound to None.
\<close>

theorem forward_witness:
  "linear_layer toy_model 5 0 = (Inr 10, 0) \<and>
   torch_tensor toy_pyro [''1000.'', ''1000.''] 0 = (Inr 2, 0) \<and>
   dist_HalfNormal toy_pyro 2 0 = (Inr 2, 0) \<and>
   dist_expand toy_pyro 2 [1, 2] 0 = (Inr 2, 0) \<and>
   dist_to_event toy_pyro 2 1 0 = (Inr 2, 0) \<and>
   pyro_sample toy_pyro ''noise'' 2 [] 0 = (Inr 2, 1) \<and>
   pyro_plate toy_pyro ''sample'' (sales_products toy_model) 1 = (Inr 2, 1) \<and>
   plate_enter toy_pyro 2 1 = (Inr (), 1) \<and>
   tensor_len toy_pyro 5 1 = (Inr 5, 1) \<and>
   pyro_plate toy_pyro ''data'' (int 5) 1 = (Inr 5, 1) \<and>
   plate_enter toy_pyro 5 1 = (Inr (), 1) \<and>
   dist_Normal toy_pyro 10 2 1 = (Inr 12, 1) \<and>
   pyro_sample toy_pyro ''obs'' 12 [(''obs'', py_default None Omitted)] 1 = (Inr 12, 2) \<and>
   plate_exit toy_pyro 5 2 = (Inr (), 2) \<and>
   plate_exit toy_pyro 2 2 = (Inr (), 2) \<and>
   RevenueModel_forward toy_pyro toy_model 5 Omitted ([], 0) =
     (Inr 10,
      ([CallLinearLayer 5, CallTensor [''1000.'', ''1000.''], CallHalfNormal 2,
        CallExpand 2 [1, 2], CallToEvent 2 1, CallSample ''noise'' 2 [],
        CallPlate ''sample'' 2, EnterPlate 2, CallLen 5, CallPlate ''data'' 5, EnterPlate 5,
        CallNormal 10 2, CallSample ''obs'' 12 [(''obs'', None)],
        ExitPlate 5, ExitPlate 2], 2))"
proof -
  have h1: "linear_layer toy_model 5 0 = (Inr 10, 0)" by (simp add: toy_model_def)
  have h2: "torch_tensor toy_pyro [''1000.'', ''1000.''] 0 = (Inr 2, 0)"
    by (simp add: toy_pyro_def)
  have h3: "dist_HalfNormal toy_pyro 2 0 = (Inr 2, 0)" by (simp add: toy_pyro_def)
  have h4: "dist_expand toy_pyro 2 [1, 2] 0 = (Inr 2, 0)" by (simp add: toy_pyro_def)
  have h5: "dist_to_event toy_pyro 2 1 0 = (Inr 2, 0)" by (simp add: toy_pyro_def)
  have h6: "pyro_sample toy_pyro ''noise'' 2 [] 0 = (Inr 2, 1)" by (simp add: toy_pyro_def)
  have h7: "pyro_plate toy_pyro ''sample'' (sales_products toy_model) 1 = (Inr 2, 1)"
    by (simp add: toy_pyro_def toy_model_def)
  have h8: "plate_enter toy_pyro 2 1 = (Inr (), 1)" by (simp add: toy_pyro_def)
  have h9: "tensor_len toy_pyro 5 1 = (Inr 5, 1)" by (simp add: toy_pyro_def)
  have h10: "pyro_plate toy_pyro ''data'' (int 5) 1 = (Inr 5, 1)" by (simp add: toy_pyro_def)
  have h11: "plate_enter toy_pyro 5 1 = (Inr (), 1)" by (simp add: toy_pyro_def)
  have h12: "dist_Normal toy_pyro 10 2 1 = (Inr 12, 1)" by (simp add: toy_pyro_def)
  have h13: "pyro_sample toy_pyro ''obs'' 12 [(''obs'', py_default None Omitted)] 1 = (Inr 12, 2)"
    by (simp add: toy_pyro_def)
  have h14: "plate_exit toy_pyro 5 2 = (Inr (), 2)" by (simp add: toy_pyro_def)
  have h15: "plate_exit toy_pyro 2 2 = (Inr (), 2)" by (simp add: toy_pyro_def)
  have s: "sales_products toy_model = 2" by (simp add: toy_model_def)
  have d: "py_default None (Omitted :: nat option kwarg) = None" by (simp add: py_default_def)
  have r: "RevenueModel_forward toy_pyro toy_model 5 Omitted ([], 0) =
     (Inr 10,
      ([CallLinearLayer 5, CallTensor [''1000.'', ''1000.''], CallHalfNormal 2,
        CallExpand 2 [1, 2], CallToEvent 2 1, CallSample ''noise'' 2 [],
        CallPlate ''sample'' 2, EnterPlate 2, CallLen 5, CallPlate ''data'' 5, EnterPlate 5,
        CallNormal 10 2, CallSample ''obs'' 12 [(''obs'', None)],
        ExitPlate 5, ExitPlate 2], 2))"
    using forward_returns_linear_layer_output
      [OF h1 h2 h3 h4 h5 h6 h7 h8 h9 h10 h11 h12 h13 h14 h15, where log = "[]", THEN conjunct1]
    by (simp add: s d)
  from h1 h2 h3 h4 h5 h6 h7 h8 h9 h10 h11 h12 h13 h14 h15 r show ?thesis
    by blast
qed

end
